theory Spec2Isabelle
  imports Complex_Main "HOL-Library.AList" "HOL-Library.Multiset"
begin

section \<open>Request-scoped event tracing (sglang/srt/disaggregation/trace_utils.py)\<close>

text \<open>
  The module keeps a recorder object (class \<open>_EventContext\<close>) that writes one JSON object
  per line through Python's \<open>logging\<close> package, and a process-wide slot holding one recorder.
  The embedding passes the whole mutable state of the process around as a record \<open>world\<close>:
  the logger registry of the logging package, the contents of the files, the dictionaries
  owned by callers (by address, since \<open>range\<close> aliases them), the clock, the recorder
  objects (by address) and the module's global slot.

  Conventions of the embedding:
  \<^item> a Python float is a \<open>real\<close>; the theorems below depend on which expression is stored in
    which field, never on how floating point rounds;
  \<^item> a line of a file is represented by the JSON value that \<open>json.dumps\<close> serialises;
  \<^item> opening a file and writing to it always succeed, and \<open>str(e)\<close> returns a string.
\<close>

subsection \<open>JSON values, dictionaries, faults\<close>

datatype json =
    JNull
  | JBool bool
  | JNum real
  | JStr string
  | JArr "json list"
  | JObj "(string \<times> json) list"

text \<open>A Python dict with string keys, in insertion order.\<close>

type_synonym dict = "(string \<times> json) list"

text \<open>The keys of a dict, and membership of a key (\<open>k in d\<close>).\<close>

definition keys :: "dict \<Rightarrow> string list" where
  "keys d = map fst d"

text \<open>\<open>d[k]\<close> for reading, \<open>None\<close> where Python raises \<open>KeyError\<close>.\<close>

definition getitem :: "dict \<Rightarrow> string \<Rightarrow> json option" where
  "getitem d k = map_of d k"

text \<open>
  \<open>round(x, n)\<close> of Python on the reals: the nearest multiple of \<open>10 ^ -n\<close>, a tie going to
  the even one.
\<close>

definition round_half_even :: "real \<Rightarrow> int" where
  "round_half_even x =
     (let f = \<lfloor>x\<rfloor>; d = x - of_int f
      in if d < 1 / 2 then f else if 1 / 2 < d then f + 1 else if even f then f else f + 1)"

definition py_round :: "real \<Rightarrow> nat \<Rightarrow> real" where
  "py_round x n = of_int (round_half_even (x * 10 ^ n)) / 10 ^ n"

text \<open>
  A raised object: the name of its class, whether the class derives from \<open>Exception\<close>
  (\<open>KeyboardInterrupt\<close>, \<open>SystemExit\<close> and \<open>GeneratorExit\<close> derive from \<open>BaseException\<close>
  only), and what \<open>str\<close> returns for it.
\<close>

datatype fault = Fault (exc_class: string) (is_Exception: bool) (str_of: string)

subsection \<open>The logging package, as far as the module uses it\<close>

text \<open>
  A handler is a \<open>logging.FileHandler\<close> in append mode with the formatter \<open>%(message)s\<close>
  and level \<open>NOTSET\<close>, as line 26 to 28 of the source build it: it writes the message and
  a newline to its file. A path string stands for the file it names.
\<close>

datatype handler = FileHandler (baseFilename: string)

record py_logger =
  handlers :: "handler list"
  propagate :: bool
  level :: nat

definition NOTSET :: nat where "NOTSET = 0"
definition INFO :: nat where "INFO = 20"
definition WARNING :: nat where "WARNING = 30"

text \<open>The instance attributes of an \<open>_EventContext\<close>; \<open>logger\<close> refers to a logger by its name.\<close>

record event_context_obj =
  log_file :: string
  logger_name :: string
  initialized :: bool
  logger :: string

text \<open>
  The state of the process. \<open>loggers\<close> is the registry behind \<open>logging.getLogger\<close>: the
  logger of every name, a name never asked for being in the state of a new logger. Every
  named logger is taken to be a child of the root logger, as a name without dots is.
  \<open>clock\<close> lists the successive readings of \<open>time.time()\<close>, \<open>ticks\<close> counts the readings
  made; \<open>isoformat t\<close> is \<open>datetime.fromtimestamp(t).isoformat()\<close> in the time zone of
  the process. \<open>event_context\<close> is the module's global \<open>_event_context\<close>.
\<close>

record world =
  loggers :: "string \<Rightarrow> py_logger"
  root_handlers :: "handler list"
  root_level :: nat
  files :: "string \<Rightarrow> json list"
  dicts :: "nat \<Rightarrow> dict"
  clock :: "nat \<Rightarrow> real"
  ticks :: nat
  isoformat :: "real \<Rightarrow> string"
  objects :: "nat \<Rightarrow> event_context_obj"
  next_obj :: nat
  event_context :: "nat option"

definition time_time :: "world \<Rightarrow> real \<times> world" where
  "time_time w = (clock w (ticks w), w\<lparr>ticks := Suc (ticks w)\<rparr>)"

definition getLogger :: "string \<Rightarrow> string" where
  "getLogger name = name"

definition setLevel :: "string \<Rightarrow> nat \<Rightarrow> world \<Rightarrow> world" where
  "setLevel lg n w =
     w\<lparr>loggers := (loggers w)(lg := (loggers w lg)\<lparr>level := n\<rparr>)\<rparr>"

text \<open>
  \<open>addHandler\<close> appends unless the very same handler object is in the list already; the
  module only ever passes a handler it has just created (line 26), so it appends.
  \<open>removeHandler\<close> removes the handler object if it is in the list.
\<close>

definition addHandler :: "string \<Rightarrow> handler \<Rightarrow> world \<Rightarrow> world" where
  "addHandler lg h w =
     w\<lparr>loggers := (loggers w)(lg :=
         (loggers w lg)\<lparr>handlers := handlers (loggers w lg) @ [h]\<rparr>)\<rparr>"

definition removeHandler :: "string \<Rightarrow> handler \<Rightarrow> world \<Rightarrow> world" where
  "removeHandler lg h w =
     (if h \<in> set (handlers (loggers w lg))
      then w\<lparr>loggers := (loggers w)(lg :=
             (loggers w lg)\<lparr>handlers := remove1 h (handlers (loggers w lg))\<rparr>)\<rparr>
      else w)"

definition set_propagate :: "string \<Rightarrow> bool \<Rightarrow> world \<Rightarrow> world" where
  "set_propagate lg b w =
     w\<lparr>loggers := (loggers w)(lg := (loggers w lg)\<lparr>propagate := b\<rparr>)\<rparr>"

definition emit :: "json \<Rightarrow> (string \<Rightarrow> json list) \<Rightarrow> handler \<Rightarrow> (string \<Rightarrow> json list)" where
  "emit msg fs h = fs(baseFilename h := fs (baseFilename h) @ [msg])"

definition getEffectiveLevel :: "string \<Rightarrow> world \<Rightarrow> nat" where
  "getEffectiveLevel lg w =
     (if level (loggers w lg) \<noteq> NOTSET then level (loggers w lg) else root_level w)"

text \<open>The handlers of the logger get the message, then those of the root if it propagates.\<close>

definition callHandlers :: "string \<Rightarrow> json \<Rightarrow> world \<Rightarrow> world" where
  "callHandlers lg msg w =
     (let hs = handlers (loggers w lg) @ (if propagate (loggers w lg) then root_handlers w else [])
      in w\<lparr>files := foldl (emit msg) (files w) hs\<rparr>)"

definition logger_info :: "string \<Rightarrow> json \<Rightarrow> world \<Rightarrow> world" where
  "logger_info lg msg w =
     (if getEffectiveLevel lg w \<le> INFO then callHandlers lg msg w else w)"

subsection \<open>The class \<open>_EventContext\<close>\<close>

definition set_obj :: "nat \<Rightarrow> (event_context_obj \<Rightarrow> event_context_obj) \<Rightarrow> world \<Rightarrow> world" where
  "set_obj self f w = w\<lparr>objects := (objects w)(self := f (objects w self))\<rparr>"

text \<open>\<open>_setup_logger\<close>, lines 17 to 32.\<close>

definition setup_logger :: "nat \<Rightarrow> world \<Rightarrow> world" where
  "setup_logger self w =
     (if initialized (objects w self) then w
      else
        let lg = getLogger (logger_name (objects w self));
            w1 = set_obj self (\<lambda>r. r\<lparr>logger := lg\<rparr>) w;
            w2 = setLevel lg INFO w1;
            w3 = (if handlers (loggers w2 lg) = []
                  then set_propagate lg False
                         (addHandler lg (FileHandler (log_file (objects w2 self))) w2)
                  else w2)
        in set_obj self (\<lambda>r. r\<lparr>initialized := True\<rparr>) w3)"

text \<open>\<open>__init__\<close>, lines 11 to 15, on the object at address \<open>self\<close>.\<close>

definition init :: "nat \<Rightarrow> string \<Rightarrow> string \<Rightarrow> world \<Rightarrow> world" where
  "init self lfile lname w =
     setup_logger self
       (set_obj self (\<lambda>r. r\<lparr>log_file := lfile, logger_name := lname, initialized := False\<rparr>) w)"

text \<open>
  The constructor call \<open>_EventContext(log_file, logger_name)\<close>: a new object, then
  \<open>__init__\<close>. An argument left out is \<open>None\<close> here and takes the default of line 11.
\<close>

definition default_log_file :: string where
  "default_log_file = ''events.log''"

definition default_logger_name :: string where
  "default_logger_name = ''event_logger''"

definition or_default :: "string option \<Rightarrow> string \<Rightarrow> string" where
  "or_default a d = (case a of None \<Rightarrow> d | Some s \<Rightarrow> s)"

definition EventContext :: "string option \<Rightarrow> string option \<Rightarrow> world \<Rightarrow> nat \<times> world" where
  "EventContext lfile lname w =
     (let self = next_obj w
      in (self, init self (or_default lfile default_log_file) (or_default lname default_logger_name)
                  (w\<lparr>next_obj := Suc self\<rparr>)))"

text \<open>
  \<open>reconfigure\<close>, lines 34 to 45. \<open>if log_file:\<close> tests truth, so \<open>None\<close> and the empty
  string both leave the attribute as it is. The loop runs over a copy of the handler list
  of \<open>self.logger\<close>, the logger bound by the last \<open>_setup_logger\<close>.
\<close>

definition truthy_str :: "string option \<Rightarrow> bool" where
  "truthy_str a = (case a of None \<Rightarrow> False | Some s \<Rightarrow> s \<noteq> [])"

definition reconfigure :: "nat \<Rightarrow> string option \<Rightarrow> string option \<Rightarrow> world \<Rightarrow> world" where
  "reconfigure self lfile lname w =
     (let w1 = (if truthy_str lfile then set_obj self (\<lambda>r. r\<lparr>log_file := the lfile\<rparr>) w else w);
          w2 = (if truthy_str lname then set_obj self (\<lambda>r. r\<lparr>logger_name := the lname\<rparr>) w1 else w1);
          lg = logger (objects w2 self);
          w3 = foldl (\<lambda>v h. removeHandler lg h v) w2 (handlers (loggers w2 lg));
          w4 = set_obj self (\<lambda>r. r\<lparr>initialized := False\<rparr>) w3
      in setup_logger self w4)"

text \<open>
  \<open>_log_event\<close>, lines 47 to 63. The dict argument is read once, at the call, so the
  model passes its contents. \<open>if extra_data:\<close> tests truth: \<open>None\<close> and an empty dict
  both leave the key out.
\<close>

definition truthy_dict :: "dict option \<Rightarrow> bool" where
  "truthy_dict a = (case a of None \<Rightarrow> False | Some d \<Rightarrow> d \<noteq> [])"

definition event_record ::
  "string \<Rightarrow> string \<Rightarrow> string \<Rightarrow> real \<Rightarrow> real option \<Rightarrow> dict option \<Rightarrow> world \<Rightarrow> dict" where
  "event_record request_id event_name event_type timestamp duration extra_data w =
     [(''request_id'', JStr request_id),
      (''event_name'', JStr event_name),
      (''event_type'', JStr event_type),
      (''timestamp'', JNum timestamp),
      (''timestamp_iso'', JStr (isoformat w timestamp)),
      (''duration_ms'',
         (case duration of Some d \<Rightarrow> JNum (py_round (d * 1000) 3) | None \<Rightarrow> JNull))]
     @ (if truthy_dict extra_data then [(''extra_data'', JObj (the extra_data))] else [])"

definition log_event ::
  "nat \<Rightarrow> string \<Rightarrow> string \<Rightarrow> string \<Rightarrow> real \<Rightarrow> real option \<Rightarrow> dict option \<Rightarrow> world \<Rightarrow> world" where
  "log_event self request_id event_name event_type timestamp duration extra_data w =
     logger_info (logger (objects w self))
       (JObj (event_record request_id event_name event_type timestamp duration extra_data w)) w"

text \<open>The contents of an \<open>Optional[Dict]\<close> argument: the caller passes an address or \<open>None\<close>.\<close>

definition deref :: "nat option \<Rightarrow> world \<Rightarrow> dict option" where
  "deref extra_data w = map_option (dicts w) extra_data"

text \<open>
  Lines 80 and 81: \<open>error_extra = extra_data or {}\<close>, then
  \<open>error_extra['error'] = str(e)\<close>.
  A dict that is not empty is true, so \<open>error_extra\<close> is then the caller's own object and
  the assignment writes into it; otherwise \<open>error_extra\<close> is a new dict. The result is the
  contents of \<open>error_extra\<close> after the assignment, and the state.
\<close>

definition error_extra_of :: "nat option \<Rightarrow> fault \<Rightarrow> world \<Rightarrow> dict \<times> world" where
  "error_extra_of extra_data e w =
     (case extra_data of
        None \<Rightarrow> (AList.update ''error'' (JStr (str_of e)) [], w)
      | Some a \<Rightarrow>
          if dicts w a = [] then (AList.update ''error'' (JStr (str_of e)) [], w)
          else (let d = AList.update ''error'' (JStr (str_of e)) (dicts w a)
                in (d, w\<lparr>dicts := (dicts w)(a := d)\<rparr>)))"

text \<open>
  \<open>range\<close>, lines 65 to 99, a generator under \<open>@contextmanager\<close>. \<open>range_enter\<close> is the
  part before \<open>yield\<close>; \<open>range_except\<close> the handler of \<open>except Exception as e\<close>, which
  ends in a bare \<open>raise\<close>; \<open>range_exit\<close> what runs when the block is left: the handler if
  the fault derives from \<open>Exception\<close>, then the \<open>finally\<close> clause. The wrapped block is
  any function of the state that returns the fault it raised, if any; \<open>range_ctx\<close> returns
  the fault that reaches the caller of the \<open>with\<close> statement.
\<close>

definition range_enter :: "nat \<Rightarrow> string \<Rightarrow> string \<Rightarrow> nat option \<Rightarrow> world \<Rightarrow> real \<times> world" where
  "range_enter self request_id event_name extra_data w =
     (let (start_time, w1) = time_time w
      in (start_time,
          log_event self request_id event_name ''start'' start_time None (deref extra_data w1) w1))"

definition range_except :: "nat \<Rightarrow> string \<Rightarrow> string \<Rightarrow> nat option \<Rightarrow> fault \<Rightarrow> world \<Rightarrow> world" where
  "range_except self request_id event_name extra_data e w =
     (let (error_extra, w1) = error_extra_of extra_data e w;
          (t, w2) = time_time w1
      in log_event self request_id event_name ''error'' t None (Some error_extra) w2)"

definition range_finally ::
  "nat \<Rightarrow> string \<Rightarrow> string \<Rightarrow> nat option \<Rightarrow> real \<Rightarrow> world \<Rightarrow> world" where
  "range_finally self request_id event_name extra_data start_time w =
     (let (end_time, w1) = time_time w
      in log_event self request_id event_name ''end'' end_time (Some (end_time - start_time))
           (deref extra_data w1) w1)"

definition range_exit ::
  "nat \<Rightarrow> string \<Rightarrow> string \<Rightarrow> nat option \<Rightarrow> real \<Rightarrow> fault option \<Rightarrow> world \<Rightarrow> world" where
  "range_exit self request_id event_name extra_data start_time res w =
     range_finally self request_id event_name extra_data start_time
       (case res of
          None \<Rightarrow> w
        | Some e \<Rightarrow>
            if is_Exception e then range_except self request_id event_name extra_data e w else w)"

definition range_ctx ::
  "nat \<Rightarrow> string \<Rightarrow> string \<Rightarrow> nat option \<Rightarrow> (world \<Rightarrow> fault option \<times> world) \<Rightarrow> world
     \<Rightarrow> fault option \<times> world" where
  "range_ctx self request_id event_name extra_data body w =
     (let (start_time, w1) = range_enter self request_id event_name extra_data w;
          (res, w2) = body w1
      in (res, range_exit self request_id event_name extra_data start_time res w2))"

text \<open>\<open>mark\<close>, lines 101 to 108.\<close>

definition mark :: "nat \<Rightarrow> string \<Rightarrow> string \<Rightarrow> nat option \<Rightarrow> world \<Rightarrow> world" where
  "mark self request_id event_name extra_data w =
     (let (t, w1) = time_time w
      in log_event self request_id event_name ''instant'' t None (deref extra_data w1) w1)"

subsection \<open>The process-wide recorder\<close>

text \<open>\<open>get_event_logger\<close> and \<open>init_event_logger\<close>, lines 113 to 124.\<close>

definition get_event_logger :: "string option \<Rightarrow> string option \<Rightarrow> world \<Rightarrow> nat \<times> world" where
  "get_event_logger lfile lname w =
     (case event_context w of
        None \<Rightarrow>
          (let (self, w1) = EventContext lfile lname w
           in (self, w1\<lparr>event_context := Some self\<rparr>))
      | Some self \<Rightarrow> (self, w))"

definition init_event_logger :: "string option \<Rightarrow> string option \<Rightarrow> world \<Rightarrow> nat \<times> world" where
  "init_event_logger lfile lname w =
     (let (self, w1) = EventContext lfile lname w
      in (self, w1\<lparr>event_context := Some self\<rparr>))"

subsection \<open>Reading the lines of a file\<close>

text \<open>The value of a key of a line, and whether the line has the key at all.\<close>

definition field :: "string \<Rightarrow> json \<Rightarrow> json option" where
  "field k j = (case j of JObj d \<Rightarrow> getitem d k | _ \<Rightarrow> None)"

definition has_field :: "string \<Rightarrow> json \<Rightarrow> bool" where
  "has_field k j = (case j of JObj d \<Rightarrow> k \<in> set (keys d) | _ \<Rightarrow> False)"

text \<open>
  The recorder at \<open>self\<close> is bound to the file \<open>f\<close>: its logger has one handler, on \<open>f\<close>,
  does not propagate and is at level \<open>INFO\<close>. This is the state \<open>_setup_logger\<close> leaves when
  the logger had no handler before.
\<close>

definition bound :: "nat \<Rightarrow> string \<Rightarrow> world \<Rightarrow> bool" where
  "bound self f w \<longleftrightarrow>
     handlers (loggers w (logger (objects w self))) = [FileHandler f] \<and>
     propagate (loggers w (logger (objects w self))) = False \<and>
     level (loggers w (logger (objects w self))) = INFO"

subsection \<open>A process to run the module in\<close>

text \<open>
  A process that has not touched the logging package: no handler anywhere, the root logger
  at \<open>WARNING\<close>, no file written, the clock reading \<open>n\<close> seconds at its \<open>n\<close>-th reading, in
  UTC. The caller owns one dict, at address 0, with one entry; the dict at address 1 is
  empty.
\<close>

definition new_logger :: py_logger where
  "new_logger = \<lparr>handlers = [], propagate = True, level = NOTSET\<rparr>"

definition utc_isoformat :: "real \<Rightarrow> string" where
  "utc_isoformat t =
     (if t = 0 then ''1970-01-01T00:00:00''
      else if t = 1 then ''1970-01-01T00:00:01''
      else if t = 2 then ''1970-01-01T00:00:02''
      else ''1970-01-01T00:00:03'')"

definition fresh_process :: world where
  "fresh_process =
     \<lparr>loggers = (\<lambda>_. new_logger),
      root_handlers = [],
      root_level = WARNING,
      files = (\<lambda>_. []),
      dicts = (\<lambda>_. [])(0 := [(''k'', JStr ''v'')]),
      clock = real,
      ticks = 0,
      isoformat = utc_isoformat,
      objects =
        (\<lambda>_. \<lparr>log_file = [], logger_name = [], initialized = False, logger = []\<rparr>),
      next_obj = 0,
      event_context = None\<rparr>"

text \<open>\<open>init_event_logger("t.log", "ch")\<close> in that process: the recorder is the object 0.\<close>

definition traced_process :: world where
  "traced_process = snd (init_event_logger (Some ''t.log'') (Some ''ch'') fresh_process)"

text \<open>
  The same process after \<open>_EventContext("t.log", "ch")\<close> instead: the channel has its
  handler, the global slot is still empty.
\<close>

definition direct_process :: world where
  "direct_process = snd (EventContext (Some ''t.log'') (Some ''ch'') fresh_process)"

text \<open>A wrapped block that does nothing, and one that raises.\<close>

definition pass :: "world \<Rightarrow> fault option \<times> world" where
  "pass w = (None, w)"

definition raise :: "fault \<Rightarrow> world \<Rightarrow> fault option \<times> world" where
  "raise e w = (Some e, w)"

text \<open>A wrapped block that empties the dict at address \<open>a\<close> (\<open>d.clear()\<close>) and then raises.\<close>

definition clear_then_raise :: "nat \<Rightarrow> fault \<Rightarrow> world \<Rightarrow> fault option \<times> world" where
  "clear_then_raise a e w = (Some e, w\<lparr>dicts := (dicts w)(a := [])\<rparr>)"

definition ValueError :: "string \<Rightarrow> fault" where
  "ValueError msg = Fault ''ValueError'' True msg"

definition KeyboardInterrupt :: fault where
  "KeyboardInterrupt = Fault ''KeyboardInterrupt'' False []"

definition SystemExit :: "string \<Rightarrow> fault" where
  "SystemExit msg = Fault ''SystemExit'' False msg"

section \<open>Properties\<close>

subsection \<open>What an emission writes\<close>

lemma logger_info_bound:
  "handlers (loggers w lg) = [FileHandler f] \<Longrightarrow>
   propagate (loggers w lg) = False \<Longrightarrow>
   level (loggers w lg) = INFO \<Longrightarrow>
   logger_info lg msg w = w\<lparr>files := (files w)(f := files w f @ [msg])\<rparr>"
  by (simp add: logger_info_def getEffectiveLevel_def callHandlers_def emit_def INFO_def NOTSET_def)

lemma log_event_bound:
  "bound self f w \<Longrightarrow>
   log_event self rid name ty ts d ed w =
     w\<lparr>files := (files w)(f := files w f
         @ [JObj (event_record rid name ty ts d ed w)])\<rparr>"
  by (simp add: log_event_def bound_def logger_info_bound)

lemma bound_files [simp]: "bound self f (w\<lparr>files := x\<rparr>) = bound self f w"
  by (simp add: bound_def)

lemma bound_ticks [simp]: "bound self f (w\<lparr>ticks := x\<rparr>) = bound self f w"
  by (simp add: bound_def)

lemma bound_dicts [simp]: "bound self f (w\<lparr>dicts := x\<rparr>) = bound self f w"
  by (simp add: bound_def)

lemma event_record_files [simp]:
  "event_record rid name ty ts d ed (w\<lparr>files := x\<rparr>)
      = event_record rid name ty ts d ed w"
  by (simp add: event_record_def)

lemma event_record_ticks [simp]:
  "event_record rid name ty ts d ed (w\<lparr>ticks := x\<rparr>)
      = event_record rid name ty ts d ed w"
  by (simp add: event_record_def)

lemma event_record_dicts [simp]:
  "event_record rid name ty ts d ed (w\<lparr>dicts := x\<rparr>)
      = event_record rid name ty ts d ed w"
  by (simp add: event_record_def)

text \<open>The fields of the record that \<open>_log_event\<close> builds.\<close>

lemma field_event_record:
  "field ''request_id'' (JObj (event_record rid name ty ts d ed w)) = Some (JStr rid)"
  "field ''event_name'' (JObj (event_record rid name ty ts d ed w)) = Some (JStr name)"
  "field ''event_type'' (JObj (event_record rid name ty ts d ed w)) = Some (JStr ty)"
  "field ''timestamp'' (JObj (event_record rid name ty ts d ed w)) = Some (JNum ts)"
  "field ''duration_ms'' (JObj (event_record rid name ty ts None ed w)) = Some JNull"
  "field ''duration_ms'' (JObj (event_record rid name ty ts (Some x) ed w))
     = Some (JNum (py_round (x * 1000) 3))"
  by (simp_all add: field_def getitem_def event_record_def)

lemma field_extra_data:
  "x \<noteq> [] \<Longrightarrow> field ''extra_data'' (JObj (event_record rid name ty ts d (Some x) w)) = Some (JObj x)"
  by (simp add: field_def getitem_def event_record_def truthy_dict_def)

lemma has_field_extra_data:
  "has_field ''extra_data'' (JObj (event_record rid name ty ts d ed w)) = truthy_dict ed"
  by (auto simp: has_field_def keys_def event_record_def)

lemma has_field_duration_ms:
  "has_field ''duration_ms'' (JObj (event_record rid name ty ts d ed w))"
  by (simp add: has_field_def keys_def event_record_def)

subsection \<open>The phases of \<open>range\<close> on a bound recorder\<close>

lemma range_enter_bound:
  "bound self f w \<Longrightarrow>
   range_enter self rid name ed w =
     (clock w (ticks w),
      w\<lparr>ticks := Suc (ticks w),
        files := (files w)(f := files w f @
          [JObj (event_record rid name ''start'' (clock w (ticks w)) None (deref ed w) w)])\<rparr>)"
  by (simp add: range_enter_def time_time_def log_event_bound deref_def)

lemma range_finally_bound:
  "bound self f w \<Longrightarrow>
   range_finally self rid name ed t0 w =
      w\<lparr>ticks := Suc (ticks w),
        files := (files w)(f := files w f @
          [JObj (event_record rid name ''end'' (clock w (ticks w))
                   (Some (clock w (ticks w) - t0)) (deref ed w) w)])\<rparr>"
  by (simp add: range_finally_def time_time_def log_event_bound deref_def)

lemma error_extra_of_cases:
  "error_extra_of ed e w =
     (AList.update ''error'' (JStr (str_of e)) (case ed of None \<Rightarrow> [] | Some a \<Rightarrow> dicts w a),
      case ed of None \<Rightarrow> w
       | Some a \<Rightarrow> if dicts w a = [] then w
           else w\<lparr>dicts := (dicts w)(a := AList.update ''error'' (JStr (str_of e)) (dicts w a))\<rparr>)"
  by (simp add: error_extra_of_def Let_def split: option.splits)

lemma bound_error_extra_of [simp]: "bound self f (snd (error_extra_of ed e w)) = bound self f w"
  by (simp add: error_extra_of_cases split: option.splits)

lemma files_error_extra_of [simp]: "files (snd (error_extra_of ed e w)) = files w"
  by (simp add: error_extra_of_cases split: option.splits)

lemma ticks_error_extra_of [simp]: "ticks (snd (error_extra_of ed e w)) = ticks w"
  by (simp add: error_extra_of_cases split: option.splits)

lemma clock_error_extra_of [simp]: "clock (snd (error_extra_of ed e w)) = clock w"
  by (simp add: error_extra_of_cases split: option.splits)

lemma event_record_error_extra_of [simp]:
  "event_record rid name ty ts d x (snd (error_extra_of ed e w))
      = event_record rid name ty ts d x w"
  by (simp add: error_extra_of_cases split: option.splits)

lemma range_except_bound:
  "bound self f w \<Longrightarrow>
   range_except self rid name ed e w =
     (snd (error_extra_of ed e w))
      \<lparr>ticks := Suc (ticks w),
       files := (files w)(f := files w f @
          [JObj (event_record rid name ''error'' (clock w (ticks w)) None
                   (Some (fst (error_extra_of ed e w))) w)])\<rparr>"
  by (simp add: range_except_def time_time_def log_event_bound split_beta)

text \<open>\<open>range\<close> around a block whose outcome is known.\<close>

lemma range_ctx_unfold:
  "body (snd (range_enter self rid name ed w)) = (res, w2) \<Longrightarrow>
   range_ctx self rid name ed body w =
     (res, range_exit self rid name ed (fst (range_enter self rid name ed w)) res w2)"
  by (simp add: range_ctx_def split_beta)

lemma fst_error_extra_of:
  "fst (error_extra_of ed e w) =
     AList.update ''error'' (JStr (str_of e)) (case ed of None \<Rightarrow> [] | Some a \<Rightarrow> dicts w a)"
  by (simp add: error_extra_of_cases)

lemma fst_error_extra_of_nonempty: "fst (error_extra_of ed e w) \<noteq> []"
  by (simp add: fst_error_extra_of AList.update_nonempty)

lemma getitem_error_extra_of:
  "getitem (fst (error_extra_of ed e w)) ''error'' = Some (JStr (str_of e))"
  by (simp add: fst_error_extra_of getitem_def update_conv')

lemma dicts_error_extra_of:
  "dicts (snd (error_extra_of ed e w)) =
     (case ed of None \<Rightarrow> dicts w
      | Some a \<Rightarrow> if dicts w a = [] then dicts w
          else (dicts w)(a := AList.update ''error'' (JStr (str_of e)) (dicts w a)))"
  by (simp add: error_extra_of_cases split: option.splits)

lemma range_exit_exception:
  "bound self f w \<Longrightarrow> is_Exception e \<Longrightarrow>
   range_exit self rid name ed t0 (Some e) w =
     (snd (error_extra_of ed e w))
      \<lparr>ticks := Suc (Suc (ticks w)),
       files := (files w)(f := files w f @
          [JObj (event_record rid name ''error'' (clock w (ticks w)) None
                   (Some (fst (error_extra_of ed e w))) w),
           JObj (event_record rid name ''end'' (clock w (Suc (ticks w)))
                   (Some (clock w (Suc (ticks w)) - t0))
                   (deref ed (snd (error_extra_of ed e w))) w)])\<rparr>"
  by (simp add: range_exit_def range_except_bound range_finally_bound deref_def)

lemma range_exit_uncaught:
  "bound self f w \<Longrightarrow> \<not> is_Exception e \<Longrightarrow>
   range_exit self rid name ed t0 (Some e) w =
      w\<lparr>ticks := Suc (ticks w),
        files := (files w)(f := files w f @
          [JObj (event_record rid name ''end'' (clock w (ticks w))
                   (Some (clock w (ticks w) - t0)) (deref ed w) w)])\<rparr>"
  by (simp add: range_exit_def range_finally_bound)

lemma range_exit_returned:
  "bound self f w \<Longrightarrow>
   range_exit self rid name ed t0 None w =
      w\<lparr>ticks := Suc (ticks w),
        files := (files w)(f := files w f @
          [JObj (event_record rid name ''end'' (clock w (ticks w))
                   (Some (clock w (ticks w) - t0)) (deref ed w) w)])\<rparr>"
  by (simp add: range_exit_def range_finally_bound)

text \<open>Logging leaves the dictionaries of the caller alone.\<close>

lemma dicts_logger_info [simp]: "dicts (logger_info lg msg w) = dicts w"
  by (simp add: logger_info_def callHandlers_def Let_def)

lemma dicts_log_event [simp]: "dicts (log_event self rid name ty ts d ed w) = dicts w"
  by (simp add: log_event_def)

lemma dicts_range_finally [simp]: "dicts (range_finally self rid name ed t0 w) = dicts w"
  by (simp add: range_finally_def time_time_def)

lemma dicts_range_except:
  "dicts (range_except self rid name ed e w) = dicts (snd (error_extra_of ed e w))"
  by (simp add: range_except_def time_time_def split_beta)

lemma dicts_range_enter [simp]: "dicts (snd (range_enter self rid name ed w)) = dicts w"
  by (simp add: range_enter_def time_time_def split_beta)

lemma range_ctx_raise:
  "range_ctx self rid name ed (raise e) w =
     (Some e, range_exit self rid name ed (fst (range_enter self rid name ed w)) (Some e)
                (snd (range_enter self rid name ed w)))"
  by (simp add: range_ctx_def raise_def split_beta)

lemma range_ctx_clear_then_raise:
  "range_ctx self rid name ed (clear_then_raise a e) w =
     (Some e, range_exit self rid name ed (fst (range_enter self rid name ed w)) (Some e)
                ((snd (range_enter self rid name ed w))
                   \<lparr>dicts := (dicts (snd (range_enter self rid name ed w)))(a := [])\<rparr>))"
  by (simp add: range_ctx_def clear_then_raise_def split_beta)

lemma range_ctx_pass:
  "range_ctx self rid name ed pass w =
     (None, range_exit self rid name ed (fst (range_enter self rid name ed w)) None
                (snd (range_enter self rid name ed w)))"
  by (simp add: range_ctx_def pass_def split_beta)

lemma mark_bound:
  "bound self f w \<Longrightarrow>
   mark self rid name ed w =
      w\<lparr>ticks := Suc (ticks w),
        files := (files w)(f := files w f @
          [JObj (event_record rid name ''instant'' (clock w (ticks w)) None (deref ed w) w)])\<rparr>"
  by (simp add: mark_def time_time_def log_event_bound deref_def)

text \<open>What the part of \<open>range\<close> after the block appends, whatever the outcome.\<close>

lemma range_exit_lines:
  assumes "bound self f w"
  shows "\<exists>ls E te.
     files (range_exit self rid name ed t0 res w) = (files w)(f := files w f @ ls @ [E]) \<and>
     (ls = [] \<or> (\<exists>R. ls = [R] \<and> field ''event_type'' R
         = Some (JStr ''error'') \<and>
                     field ''duration_ms'' R = Some JNull)) \<and>
     field ''event_type'' E = Some (JStr ''end'') \<and>
     field ''timestamp'' E = Some (JNum te) \<and>
     field ''duration_ms'' E = Some (JNum (py_round ((te - t0) * 1000) 3))"
proof (cases "\<exists>e. res = Some e \<and> is_Exception e")
  case True
  then obtain e where e: "res = Some e" "is_Exception e" by blast
  let ?R = "JObj (event_record rid name ''error'' (clock w (ticks w)) None
                   (Some (fst (error_extra_of ed e w))) w)"
  let ?E = "JObj (event_record rid name ''end'' (clock w (Suc (ticks w)))
                   (Some (clock w (Suc (ticks w)) - t0))
                   (deref ed (snd (error_extra_of ed e w))) w)"
  have "files (range_exit self rid name ed t0 res w) = (files w)(f := files w f @ [?R] @ [?E])"
    using assms e by (simp add: range_exit_exception)
  then show ?thesis
    apply -
    apply (rule exI [of _ "[?R]"], rule exI [of _ ?E], rule exI [of _ "clock w (Suc (ticks w))"])
    apply (simp add: field_event_record)
    done
next
  case False
  let ?E = "JObj (event_record rid name ''end'' (clock w (ticks w))
                   (Some (clock w (ticks w) - t0)) (deref ed w) w)"
  have "range_exit self rid name ed t0 res w = range_finally self rid name ed t0 w"
    using False by (cases res) (auto simp: range_exit_def)
  then have "files (range_exit self rid name ed t0 res w) = (files w)(f := files w f @ [] @ [?E])"
    using assms by (simp add: range_finally_bound)
  then show ?thesis
    apply -
    apply (rule exI [of _ "[]"], rule exI [of _ ?E], rule exI [of _ "clock w (ticks w)"])
    apply (simp add: field_event_record)
    done
qed

lemma bound_after_enter: "bound self f w \<Longrightarrow> bound self f (snd (range_enter self rid name ed w))"
  by (simp add: range_enter_bound)

subsection \<open>Construction and reconfiguration\<close>

lemma setup_logger_uninitialized:
  "\<not> initialized (objects w self) \<Longrightarrow>
   setup_logger self w =
     w\<lparr>loggers := (loggers w)(logger_name (objects w self) :=
          (if handlers (loggers w (logger_name (objects w self))) = []
           then (loggers w (logger_name (objects w self)))
                  \<lparr>level := INFO, handlers := [FileHandler (log_file (objects w self))],
                   propagate := False\<rparr>
           else (loggers w (logger_name (objects w self)))\<lparr>level := INFO\<rparr>)),
       objects := (objects w)(self :=
          (objects w self)\<lparr>logger := logger_name (objects w self), initialized := True\<rparr>)\<rparr>"
  by (simp add: setup_logger_def set_obj_def setLevel_def addHandler_def set_propagate_def
      getLogger_def Let_def)

lemma init_unfold:
  "init self lfile lname w =
     w\<lparr>loggers := (loggers w)(lname :=
          (if handlers (loggers w lname) = []
           then (loggers w lname)\<lparr>level := INFO, handlers := [FileHandler lfile], propagate := False\<rparr>
           else (loggers w lname)\<lparr>level := INFO\<rparr>)),
       objects := (objects w)(self :=
          (objects w self)\<lparr>log_file := lfile, logger_name := lname, logger := lname,
                            initialized := True\<rparr>)\<rparr>"
  by (simp add: init_def setup_logger_uninitialized set_obj_def)

lemma EventContext_unfold:
  "EventContext lfile lname w =
     (next_obj w, init (next_obj w) (or_default lfile default_log_file)
                    (or_default lname default_logger_name) (w\<lparr>next_obj := Suc (next_obj w)\<rparr>))"
  by (simp add: EventContext_def Let_def)

lemma event_context_init [simp]: "event_context (init self lfile lname w) = event_context w"
  by (simp add: init_unfold)

lemma init_event_logger_unfold:
  "init_event_logger lfile lname w =
     (next_obj w,
      (init (next_obj w) (or_default lfile default_log_file) (or_default lname default_logger_name)
         (w\<lparr>next_obj := Suc (next_obj w)\<rparr>))\<lparr>event_context := Some (next_obj w)\<rparr>)"
  by (simp add: init_event_logger_def EventContext_unfold)

text \<open>The loop of lines 41 and 42 empties the handler list.\<close>

lemma mset_foldl_remove1:
  "mset (foldl (\<lambda>ys h. remove1 h ys) ys hs) = mset ys - mset hs"
  by (induction hs arbitrary: ys) simp_all

lemma foldl_remove1_self: "foldl (\<lambda>ys h. remove1 h ys) hs hs = []"
  using mset_foldl_remove1 [of hs hs] by simp

lemma removeHandler_remove1:
  "removeHandler lg h w =
     w\<lparr>loggers := (loggers w)(lg := (loggers w lg)\<lparr>handlers := remove1 h (handlers (loggers w lg))\<rparr>)\<rparr>"
  by (simp add: removeHandler_def remove1_idem)

lemma removeHandler_loop:
  "foldl (\<lambda>v h. removeHandler lg h v) w hs =
     w\<lparr>loggers := (loggers w)(lg :=
          (loggers w lg)\<lparr>handlers := foldl (\<lambda>ys h. remove1 h ys) (handlers (loggers w lg)) hs\<rparr>)\<rparr>"
  by (induction hs arbitrary: w) (simp_all add: removeHandler_remove1)

lemma removeHandler_all:
  "foldl (\<lambda>v h. removeHandler lg h v) w (handlers (loggers w lg)) =
     w\<lparr>loggers := (loggers w)(lg := (loggers w lg)\<lparr>handlers := []\<rparr>)\<rparr>"
  by (simp add: removeHandler_loop foldl_remove1_self)

lemma truthy_str_simps [simp]:
  "truthy_str None = False"
  "truthy_str (Some s) = (s \<noteq> [])"
  by (simp_all add: truthy_str_def)

lemma reconfigure_unfold:
  "reconfigure self lfile lname w =
     setup_logger self
       (w\<lparr>loggers := (loggers w)(logger (objects w self) :=
            (loggers w (logger (objects w self)))\<lparr>handlers := []\<rparr>),
          objects := (objects w)(self := (objects w self)
            \<lparr>log_file := (if truthy_str lfile then the lfile else log_file (objects w self)),
             logger_name := (if truthy_str lname then the lname else logger_name (objects w self)),
             initialized := False\<rparr>)\<rparr>)"
  by (simp add: reconfigure_def Let_def set_obj_def removeHandler_loop foldl_remove1_self)

lemma files_setup_logger [simp]: "files (setup_logger self w) = files w"
  by (simp add: setup_logger_def set_obj_def setLevel_def addHandler_def set_propagate_def Let_def)

lemma files_reconfigure [simp]: "files (reconfigure self lfile lname w) = files w"
  by (simp add: reconfigure_unfold)

lemma reconfigure_same_channel:
  assumes "logger (objects w self) = logger_name (objects w self)"
  shows "loggers (reconfigure self lfile None w) =
           (loggers w)(logger_name (objects w self) :=
              (loggers w (logger_name (objects w self)))
                \<lparr>level := INFO,
                 handlers := [FileHandler (if truthy_str lfile then the lfile
                                             else log_file (objects w self))],
                 propagate := False\<rparr>)"
    and "objects (reconfigure self lfile None w) =
           (objects w)(self := (objects w self)
              \<lparr>log_file := (if truthy_str lfile then the lfile else log_file (objects w self)),
               logger := logger_name (objects w self), initialized := True\<rparr>)"
  using assms
  by (simp_all add: reconfigure_unfold setup_logger_uninitialized)

lemma bound_reconfigure:
  assumes "logger (objects w self) = logger_name (objects w self)"
  shows "bound self (if truthy_str lfile then the lfile else log_file (objects w self))
           (reconfigure self lfile None w)"
  using assms by (simp add: bound_def reconfigure_same_channel)

text \<open>No call of \<open>reconfigure\<close> leaves a logger with more handlers than it had, or than one.\<close>

lemma reconfigure_handlers_le:
  "length (handlers (loggers (reconfigure self lfile lname w) lg))
     \<le> max 1 (length (handlers (loggers w lg)))"
  by (simp add: reconfigure_unfold setup_logger_uninitialized)

lemma reconfigure_repeated_le:
  "length (handlers (loggers (foldl (\<lambda>v (sink, channel). reconfigure self sink channel v) w calls) lg))
     \<le> max 1 (length (handlers (loggers w lg)))"
proof (induction calls arbitrary: w)
  case Nil
  then show ?case by simp
next
  case (Cons c calls)
  obtain lfile lname where c: "c = (lfile, lname)" by (cases c)
  have "length (handlers (loggers (foldl (\<lambda>v (sink, channel). reconfigure self sink channel v)
            (reconfigure self lfile lname w) calls) lg))
        \<le> max 1 (length (handlers (loggers (reconfigure self lfile lname w) lg)))"
    by (rule Cons.IH)
  also have "\<dots> \<le> max 1 (length (handlers (loggers w lg)))"
    using reconfigure_handlers_le [of self lfile lname w lg] by simp
  finally show ?case by (simp add: c)
qed

lemma logger_info_at_INFO:
  "level (loggers w lg) = INFO \<Longrightarrow>
   logger_info lg msg w =
     w\<lparr>files := foldl (emit msg) (files w)
        (handlers (loggers w lg)
            @ (if propagate (loggers w lg) then root_handlers w else []))\<rparr>"
  by (simp add: logger_info_def getEffectiveLevel_def callHandlers_def INFO_def NOTSET_def)

text \<open>
  Construction on a channel that has no handler yet leaves the recorder bound to its file,
  and the logger of a recorder is always the one of its channel.
\<close>

lemma bound_init_event_logger:
  "handlers (loggers w (or_default lname default_logger_name)) = [] \<Longrightarrow>
   bound (fst (init_event_logger lfile lname w)) (or_default lfile default_log_file)
     (snd (init_event_logger lfile lname w))"
  by (simp add: bound_def init_event_logger_unfold init_unfold)

lemma bound_get_event_logger:
  "event_context w = None \<Longrightarrow>
   handlers (loggers w (or_default lname default_logger_name)) = [] \<Longrightarrow>
   bound (fst (get_event_logger lfile lname w)) (or_default lfile default_log_file)
     (snd (get_event_logger lfile lname w))"
  by (simp add: bound_def get_event_logger_def EventContext_unfold init_unfold)

lemma logger_of_channel_init:
  "logger (objects (init self lfile lname w) self)
      = logger_name (objects (init self lfile lname w) self)"
  by (simp add: init_unfold)

lemma logger_of_channel_reconfigure:
  "logger (objects (reconfigure self lfile lname w) self)
     = logger_name (objects (reconfigure self lfile lname w) self)"
  by (simp add: reconfigure_unfold setup_logger_uninitialized)

subsection \<open>The example process\<close>

lemmas construct_defs =
  init_event_logger_def get_event_logger_def EventContext_def init_def setup_logger_def set_obj_def
  setLevel_def addHandler_def set_propagate_def getLogger_def or_default_def
  default_log_file_def default_logger_name_def

lemma traced_fields:
  "files traced_process = (\<lambda>_. [])"
  "dicts traced_process = (\<lambda>_. [])(0 := [(''k'', JStr ''v'')])"
  "ticks traced_process = 0"
  "clock traced_process = real"
  by (simp_all add: traced_process_def construct_defs fresh_process_def Let_def)

lemma traced_bound: "bound 0 ''t.log'' traced_process"
  by (simp add: traced_process_def init_event_logger_def EventContext_def init_def setup_logger_def
    set_obj_def setLevel_def addHandler_def set_propagate_def getLogger_def fresh_process_def
    new_logger_def or_default_def bound_def Let_def)

lemma traced_fields_more:
  "loggers traced_process = (\<lambda>_. new_logger)(''ch'' :=
      new_logger\<lparr>level := INFO, handlers := [FileHandler ''t.log''], propagate := False\<rparr>)"
  "objects traced_process 0 =
     \<lparr>log_file = ''t.log'', logger_name = ''ch'', initialized = True, logger = ''ch''\<rparr>"
  "objects traced_process 1 =
     \<lparr>log_file = [], logger_name = [], initialized = False, logger = []\<rparr>"
  "next_obj traced_process = 1"
  "event_context traced_process = Some 0"
  by (simp_all add: traced_process_def init_event_logger_unfold init_unfold fresh_process_def
      new_logger_def or_default_def)

section \<open>The claims\<close>

text \<open>
  C1. A call of \<open>range\<close> on a recorder bound to the sink \<open>f\<close>, around a block that returns
  without raising, appends exactly two lines to the sink and writes nowhere else: the
  part before the block appends one line \<open>S\<close>, the part after it one line \<open>E\<close> (what the
  block itself does to the files in between is its own). \<open>S\<close> is a start record and \<open>E\<close> an
  end record, both with the request id and the event name of the call, and the
  \<open>duration_ms\<close> of \<open>E\<close> is \<open>round((te - ts) * 1000, 3)\<close> for the timestamps \<open>ts\<close> of \<open>S\<close>
  and \<open>te\<close> of \<open>E\<close>. No fault reaches the caller.
\<close>

theorem range_success_two_records:
  assumes "bound self f w"
    and "body (snd (range_enter self rid name ed w)) = (None, w2)"
    and "bound self f w2"
  shows "\<exists>S E ts te.
     files (snd (range_enter self rid name ed w)) = (files w)(f := files w f @ [S]) \<and>
     fst (range_ctx self rid name ed body w) = None \<and>
     files (snd (range_ctx self rid name ed body w)) = (files w2)(f := files w2 f @ [E]) \<and>
     field ''event_type'' S = Some (JStr ''start'') \<and>
     field ''event_type'' E = Some (JStr ''end'') \<and>
     field ''request_id'' S = Some (JStr rid) \<and>
     field ''request_id'' E = Some (JStr rid) \<and>
     field ''event_name'' S = Some (JStr name) \<and>
     field ''event_name'' E = Some (JStr name) \<and>
     field ''timestamp'' S = Some (JNum ts) \<and>
     field ''timestamp'' E = Some (JNum te) \<and>
     field ''duration_ms'' E = Some (JNum (py_round ((te - ts) * 1000) 3))"
proof -
  let ?S = "JObj (event_record rid name ''start'' (clock w (ticks w)) None (deref ed w) w)"
  let ?E = "JObj (event_record rid name ''end'' (clock w2 (ticks w2))
                   (Some (clock w2 (ticks w2) - clock w (ticks w))) (deref ed w2) w2)"
  have enter: "files (snd (range_enter self rid name ed w)) = (files w)(f := files w f @ [?S])"
    and start: "fst (range_enter self rid name ed w) = clock w (ticks w)"
    using assms(1) by (simp_all add: range_enter_bound)
  have run: "range_ctx self rid name ed body w =
      (None, range_finally self rid name ed (clock w (ticks w)) w2)"
    using assms(2) start by (simp add: range_ctx_unfold range_exit_def)
  have exit: "files (range_finally self rid name ed (clock w (ticks w)) w2) =
      (files w2)(f := files w2 f @ [?E])"
    using assms(3) by (simp add: range_finally_bound)
  show ?thesis
    apply (rule exI [of _ ?S], rule exI [of _ ?E])
    apply (rule exI [of _ "clock w (ticks w)"], rule exI [of _ "clock w2 (ticks w2)"])
    apply (simp add: enter run exit field_event_record)
    done
qed

theorem range_success_two_records_witness:
  "bound 0 ''t.log'' traced_process \<and>
   pass (snd (range_enter 0 ''req-1'' ''load'' None traced_process))
     = (None, snd (range_enter 0 ''req-1'' ''load'' None traced_process)) \<and>
   bound 0 ''t.log'' (snd (range_enter 0 ''req-1'' ''load'' None traced_process)) \<and>
   (\<exists>S E ts te.
     files (snd (range_enter 0 ''req-1'' ''load'' None traced_process))
       = (files traced_process)(''t.log'' := files traced_process ''t.log'' @ [S]) \<and>
     fst (range_ctx 0 ''req-1'' ''load'' None pass traced_process) = None \<and>
     files (snd (range_ctx 0 ''req-1'' ''load'' None pass traced_process))
       = (files (snd (range_enter 0 ''req-1'' ''load'' None traced_process)))
           (''t.log'' := files (snd (range_enter 0 ''req-1'' ''load'' None traced_process)) ''t.log'' @ [E]) \<and>
     field ''event_type'' S = Some (JStr ''start'') \<and>
     field ''event_type'' E = Some (JStr ''end'') \<and>
     field ''request_id'' S = Some (JStr ''req-1'') \<and>
     field ''request_id'' E = Some (JStr ''req-1'') \<and>
     field ''event_name'' S = Some (JStr ''load'') \<and>
     field ''event_name'' E = Some (JStr ''load'') \<and>
     field ''timestamp'' S = Some (JNum ts) \<and>
     field ''timestamp'' E = Some (JNum te) \<and>
     field ''duration_ms'' E = Some (JNum (py_round ((te - ts) * 1000) 3)))"
proof -
  have h1: "bound 0 ''t.log'' traced_process"
    by (rule traced_bound)
  have h2: "pass (snd (range_enter 0 ''req-1'' ''load'' None traced_process))
     = (None, snd (range_enter 0 ''req-1'' ''load'' None traced_process))"
    by (simp add: pass_def)
  have h3: "bound 0 ''t.log'' (snd (range_enter 0 ''req-1'' ''load'' None traced_process))"
    using h1 by (rule bound_after_enter)
  show ?thesis
    using h1 h2 h3
      range_success_two_records [of 0 "''t.log''" traced_process pass "''req-1''" "''load''" None
        "snd (range_enter 0 ''req-1'' ''load'' None traced_process)"]
    by blast
qed

text \<open>
  C2, as amended. The claim speaks of every block that raises; the handler is
  \<open>except Exception\<close> (line 79), so it holds for the faults that derive from \<open>Exception\<close>:
  around a block raising such a fault \<open>e\<close>, \<open>range\<close> on a recorder bound to the sink
  appends the start record before the block and, after it, exactly the error record and
  then the end record; the \<open>extra_data\<close> of the error record has the key \<open>error\<close> with
  \<open>str(e)\<close>; and the fault that reaches the caller is \<open>e\<close> itself.
\<close>

theorem range_exception_three_records:
  assumes "bound self f w"
    and "body (snd (range_enter self rid name ed w)) = (Some e, w2)"
    and "is_Exception e"
    and "bound self f w2"
  shows "\<exists>S R E x.
     files (snd (range_enter self rid name ed w)) = (files w)(f := files w f @ [S]) \<and>
     files (snd (range_ctx self rid name ed body w)) = (files w2)(f := files w2 f @ [R, E]) \<and>
     field ''event_type'' S = Some (JStr ''start'') \<and>
     field ''event_type'' R = Some (JStr ''error'') \<and>
     field ''event_type'' E = Some (JStr ''end'') \<and>
     field ''extra_data'' R = Some (JObj x) \<and>
     getitem x ''error'' = Some (JStr (str_of e)) \<and>
     fst (range_ctx self rid name ed body w) = Some e"
proof -
  let ?t0 = "fst (range_enter self rid name ed w)"
  let ?x = "fst (error_extra_of ed e w2)"
  let ?S = "JObj (event_record rid name ''start'' (clock w (ticks w)) None (deref ed w) w)"
  let ?R = "JObj (event_record rid name ''error'' (clock w2 (ticks w2)) None (Some ?x) w2)"
  let ?E = "JObj (event_record rid name ''end'' (clock w2 (Suc (ticks w2)))
              (Some (clock w2 (Suc (ticks w2)) - ?t0)) (deref ed (snd (error_extra_of ed e w2))) w2)"
  have enter: "files (snd (range_enter self rid name ed w)) = (files w)(f := files w f @ [?S])"
    using assms(1) by (simp add: range_enter_bound)
  have run: "range_ctx self rid name ed body w
      = (Some e, range_exit self rid name ed ?t0 (Some e) w2)"
    using assms(2) by (simp add: range_ctx_unfold)
  have exit: "files (range_exit self rid name ed ?t0 (Some e) w2) = (files w2)(f := files w2 f
      @ [?R, ?E])"
    using assms(3,4) by (simp add: range_exit_exception)
  have extra: "field ''extra_data'' ?R = Some (JObj ?x)"
    by (simp add: field_extra_data fst_error_extra_of_nonempty)
  show ?thesis
    apply (rule exI [of _ ?S], rule exI [of _ ?R], rule exI [of _ ?E], rule exI [of _ ?x])
    apply (simp add: enter run exit extra field_event_record getitem_error_extra_of)
    done
qed

theorem range_exception_three_records_witness:
  "bound 0 ''t.log'' traced_process \<and>
   raise (ValueError ''boom'') (snd (range_enter 0 ''req-1'' ''load'' None traced_process))
     = (Some (ValueError ''boom''), snd (range_enter 0 ''req-1'' ''load'' None traced_process)) \<and>
   is_Exception (ValueError ''boom'') \<and>
   bound 0 ''t.log'' (snd (range_enter 0 ''req-1'' ''load'' None traced_process)) \<and>
   (\<exists>S R E x.
     files (snd (range_enter 0 ''req-1'' ''load'' None traced_process))
       = (files traced_process)(''t.log'' := files traced_process ''t.log'' @ [S]) \<and>
     files (snd (range_ctx 0 ''req-1'' ''load'' None (raise (ValueError ''boom'')) traced_process))
       = (files (snd (range_enter 0 ''req-1'' ''load'' None traced_process)))
           (''t.log'' := files (snd (range_enter 0 ''req-1'' ''load'' None traced_process)) ''t.log''
              @ [R, E]) \<and>
     field ''event_type'' S = Some (JStr ''start'') \<and>
     field ''event_type'' R = Some (JStr ''error'') \<and>
     field ''event_type'' E = Some (JStr ''end'') \<and>
     field ''extra_data'' R = Some (JObj x) \<and>
     getitem x ''error'' = Some (JStr (str_of (ValueError ''boom''))) \<and>
     fst (range_ctx 0 ''req-1'' ''load'' None (raise (ValueError ''boom'')) traced_process)
       = Some (ValueError ''boom''))"
proof -
  have h1: "bound 0 ''t.log'' traced_process"
    by (rule traced_bound)
  have h2: "raise (ValueError ''boom'') (snd (range_enter 0 ''req-1'' ''load'' None traced_process))
     = (Some (ValueError ''boom''), snd (range_enter 0 ''req-1'' ''load'' None traced_process))"
    by (simp add: raise_def)
  have h3: "is_Exception (ValueError ''boom'')"
    by (simp add: ValueError_def)
  have h4: "bound 0 ''t.log'' (snd (range_enter 0 ''req-1'' ''load'' None traced_process))"
    using h1 by (rule bound_after_enter)
  show ?thesis
    using h1 h2 h3 h4
      range_exception_three_records [of 0 "''t.log''" traced_process "raise (ValueError ''boom'')"
        "''req-1''" "''load''" None "ValueError ''boom''"
        "snd (range_enter 0 ''req-1'' ''load'' None traced_process)"]
    by blast
qed

text \<open>
  C2 as stated fails: a block that raises \<open>KeyboardInterrupt\<close> leaves two records in the
  sink, the start record and the end record, and no error record.
\<close>

theorem range_base_exception_two_records:
  "map (field ''event_type'')
     (files (snd (range_ctx 0 ''req-1'' ''load'' None (raise KeyboardInterrupt) traced_process)) ''t.log'')
     = [Some (JStr ''start''), Some (JStr ''end'')]"
  by (simp add: range_ctx_raise range_exit_uncaught [where f = "''t.log''"] bound_after_enter [where f = "''t.log''"] traced_bound KeyboardInterrupt_def
      range_enter_bound [where f = "''t.log''"] traced_fields field_event_record)

text \<open>
  C3. The claim says that the end record carries the \<open>extra_data\<close> of the call, without
  the \<open>error\<close> key of the error record. With a dict that is not empty and a block raising
  \<open>ValueError("boom")\<close>, the third line of the sink is the end record and its
  \<open>extra_data\<close> has the key \<open>error\<close>: line 80 binds \<open>error_extra\<close> to the caller's dict
  itself, line 81 writes into it, and line 98 passes the same dict again.
\<close>

theorem range_end_record_has_error_key:
  "field ''event_type''
     (files (snd (range_ctx 0 ''req-1'' ''load'' (Some 0) (raise (ValueError ''boom'')) traced_process))
        ''t.log'' ! 2) = Some (JStr ''end'') \<and>
   field ''extra_data''
     (files (snd (range_ctx 0 ''req-1'' ''load'' (Some 0) (raise (ValueError ''boom'')) traced_process))
        ''t.log'' ! 2) = Some (JObj [(''k'', JStr ''v''), (''error'', JStr ''boom'')])"
  by (simp add: range_ctx_raise range_exit_exception [where f = "''t.log''"] bound_after_enter [where f = "''t.log''"] traced_bound ValueError_def
      range_enter_bound [where f = "''t.log''"] traced_fields field_event_record field_extra_data deref_def
      dicts_error_extra_of)

text \<open>
  C4, as amended. Whatever fault \<open>e\<close> the block raises, it reaches the caller unchanged.
  If \<open>e\<close> derives from \<open>Exception\<close>, what \<open>range\<close> appends after the block is the error
  record and then the end record, and the \<open>extra_data\<close> of the error record is the dict of
  the call as it is when the fault arrives (the empty dict if none was passed) with the
  key \<open>error\<close> set to \<open>str(e)\<close>. If \<open>e\<close> does not derive from \<open>Exception\<close>, only the end
  record is appended.
\<close>

theorem range_fault_error_record:
  assumes "body (snd (range_enter self rid name ed w)) = (Some e, w2)"
    and "bound self f w2"
  shows "fst (range_ctx self rid name ed body w) = Some e \<and>
    (is_Exception e \<longrightarrow>
       (\<exists>R E. files (snd (range_ctx self rid name ed body w)) = (files w2)(f := files w2 f
           @ [R, E]) \<and>
          field ''event_type'' R = Some (JStr ''error'') \<and>
          field ''event_type'' E = Some (JStr ''end'') \<and>
          field ''extra_data'' R =
            Some (JObj (AList.update ''error'' (JStr (str_of e))
                          (case ed of None \<Rightarrow> [] | Some a \<Rightarrow> dicts w2 a))))) \<and>
    (\<not> is_Exception e \<longrightarrow>
       (\<exists>E. files (snd (range_ctx self rid name ed body w)) = (files w2)(f := files w2 f
           @ [E]) \<and>
          field ''event_type'' E = Some (JStr ''end'')))"
proof -
  let ?t0 = "fst (range_enter self rid name ed w)"
  have run: "range_ctx self rid name ed body w
      = (Some e, range_exit self rid name ed ?t0 (Some e) w2)"
    using assms(1) by (simp add: range_ctx_unfold)
  have caught: "\<exists>R E. files (range_exit self rid name ed ?t0 (Some e) w2)
      = (files w2)(f := files w2 f @ [R, E]) \<and>
          field ''event_type'' R = Some (JStr ''error'') \<and>
          field ''event_type'' E = Some (JStr ''end'') \<and>
          field ''extra_data'' R =
            Some (JObj (AList.update ''error'' (JStr (str_of e))
                          (case ed of None \<Rightarrow> [] | Some a \<Rightarrow> dicts w2 a)))"
    if "is_Exception e"
  proof -
    let ?x = "fst (error_extra_of ed e w2)"
    let ?R = "JObj (event_record rid name ''error'' (clock w2 (ticks w2)) None (Some ?x) w2)"
    let ?E = "JObj (event_record rid name ''end'' (clock w2 (Suc (ticks w2)))
                (Some (clock w2 (Suc (ticks w2)) - ?t0)) (deref ed (snd (error_extra_of ed e w2))) w2)"
    have extra: "field ''extra_data'' ?R = Some (JObj ?x)"
      by (simp add: field_extra_data fst_error_extra_of_nonempty)
    have exit: "files (range_exit self rid name ed ?t0 (Some e) w2)
        = (files w2)(f := files w2 f @ [?R, ?E])"
      using that assms(2) by (simp add: range_exit_exception)
    show ?thesis
      apply (rule exI [of _ ?R], rule exI [of _ ?E])
      apply (simp add: extra exit field_event_record)
      apply (simp add: fst_error_extra_of)
      done
  qed
  have passed: "\<exists>E. files (range_exit self rid name ed ?t0 (Some e) w2)
      = (files w2)(f := files w2 f @ [E]) \<and>
          field ''event_type'' E = Some (JStr ''end'')"
    if "\<not> is_Exception e"
  proof -
    let ?E = "JObj (event_record rid name ''end'' (clock w2 (ticks w2))
                (Some (clock w2 (ticks w2) - ?t0)) (deref ed w2) w2)"
    have exit: "files (range_exit self rid name ed ?t0 (Some e) w2) = (files w2)(f := files w2 f
        @ [?E])"
      using that assms(2) by (simp add: range_exit_uncaught)
    show ?thesis
      apply (rule exI [of _ ?E])
      apply (simp add: exit field_event_record)
      done
  qed
  show ?thesis
    using run caught passed by simp
qed

theorem range_fault_error_record_witness:
  "raise (ValueError ''boom'') (snd (range_enter 0 ''req-1'' ''load'' (Some 0) traced_process))
     = (Some (ValueError ''boom''), snd (range_enter 0 ''req-1'' ''load'' (Some 0) traced_process)) \<and>
   bound 0 ''t.log'' (snd (range_enter 0 ''req-1'' ''load'' (Some 0) traced_process)) \<and>
   is_Exception (ValueError ''boom'') \<and>
   fst (range_ctx 0 ''req-1'' ''load'' (Some 0) (raise (ValueError ''boom'')) traced_process)
     = Some (ValueError ''boom'') \<and>
   (\<exists>R E.
      files (snd (range_ctx 0 ''req-1'' ''load'' (Some 0) (raise (ValueError ''boom'')) traced_process))
        = (files (snd (range_enter 0 ''req-1'' ''load'' (Some 0) traced_process)))
            (''t.log'' := files (snd (range_enter 0 ''req-1'' ''load'' (Some 0) traced_process)) ''t.log''
               @ [R, E]) \<and>
      field ''event_type'' R = Some (JStr ''error'') \<and>
      field ''event_type'' E = Some (JStr ''end'') \<and>
      field ''extra_data'' R = Some (JObj [(''k'', JStr ''v''), (''error'', JStr ''boom'')])) \<and>
   raise KeyboardInterrupt (snd (range_enter 0 ''req-1'' ''load'' (Some 0) traced_process))
     = (Some KeyboardInterrupt, snd (range_enter 0 ''req-1'' ''load'' (Some 0) traced_process)) \<and>
   \<not> is_Exception KeyboardInterrupt \<and>
   fst (range_ctx 0 ''req-1'' ''load'' (Some 0) (raise KeyboardInterrupt) traced_process)
     = Some KeyboardInterrupt \<and>
   (\<exists>E.
      files (snd (range_ctx 0 ''req-1'' ''load'' (Some 0) (raise KeyboardInterrupt) traced_process))
        = (files (snd (range_enter 0 ''req-1'' ''load'' (Some 0) traced_process)))
            (''t.log'' := files (snd (range_enter 0 ''req-1'' ''load'' (Some 0) traced_process)) ''t.log''
               @ [E]) \<and>
      field ''event_type'' E = Some (JStr ''end''))"
proof -
  let ?w2 = "snd (range_enter 0 ''req-1'' ''load'' (Some 0) traced_process)"
  have h1: "raise (ValueError ''boom'') ?w2 = (Some (ValueError ''boom''), ?w2)"
    and k1: "raise KeyboardInterrupt ?w2 = (Some KeyboardInterrupt, ?w2)"
    by (simp_all add: raise_def)
  have h2: "bound 0 ''t.log'' ?w2"
    using traced_bound by (rule bound_after_enter)
  have h3: "is_Exception (ValueError ''boom'')" and k3: "\<not> is_Exception KeyboardInterrupt"
    by (simp_all add: ValueError_def KeyboardInterrupt_def)
  have d: "AList.update ''error'' (JStr (str_of (ValueError ''boom'')))
             (case Some 0 of None \<Rightarrow> [] | Some a \<Rightarrow> dicts ?w2 a)
           = [(''k'', JStr ''v''), (''error'', JStr ''boom'')]"
    by (simp add: traced_fields ValueError_def)
  show ?thesis
    using h1 h2 h3 k1 k3 d
      range_fault_error_record [of "raise (ValueError ''boom'')" 0 "''req-1''" "''load''" "Some 0"
        traced_process "ValueError ''boom''" ?w2 "''t.log''"]
      range_fault_error_record [of "raise KeyboardInterrupt" 0 "''req-1''" "''load''" "Some 0"
        traced_process KeyboardInterrupt ?w2 "''t.log''"]
    by simp
qed

text \<open>
  C4 as stated fails for a fault of another kind: a block that raises \<open>SystemExit\<close>
  leaves the start record and the end record only, and \<open>SystemExit\<close> reaches the caller.
\<close>

theorem range_system_exit_no_error_record:
  "map (field ''event_type'')
     (files (snd (range_ctx 0 ''req-2'' ''send'' (Some 0) (raise (SystemExit ''bye'')) traced_process)) ''t.log'')
     = [Some (JStr ''start''), Some (JStr ''end'')] \<and>
   fst (range_ctx 0 ''req-2'' ''send'' (Some 0) (raise (SystemExit ''bye'')) traced_process)
     = Some (SystemExit ''bye'')"
  by (simp add: range_ctx_raise range_exit_uncaught [where f = "''t.log''"] bound_after_enter [where f = "''t.log''"] traced_bound SystemExit_def
      range_enter_bound [where f = "''t.log''"] traced_fields field_event_record)

text \<open>
  C5, as amended. Every record that \<open>mark\<close> and \<open>range\<close> write on a bound recorder has the
  key \<open>duration_ms\<close>. Its value is null on the instant record of \<open>mark\<close>, on the start
  record and on the error record (if there is one); on the end record it is the number
  \<open>round((te - ts) * 1000, 3)\<close>, for the timestamps \<open>ts\<close> of the start record and \<open>te\<close> of
  the end record. This holds whatever the outcome \<open>res\<close> of the block.
\<close>

theorem duration_ms_null_except_on_end:
  assumes "bound self f w"
    and "body (snd (range_enter self rid name ed w)) = (res, w2)"
    and "bound self f w2"
  shows
    "(\<exists>I. files (mark self rid name ed w) = (files w)(f := files w f @ [I]) \<and>
          field ''event_type'' I = Some (JStr ''instant'') \<and>
          field ''duration_ms'' I = Some JNull) \<and>
     (\<exists>S ls E ts te.
        files (snd (range_enter self rid name ed w)) = (files w)(f := files w f @ [S]) \<and>
        files (snd (range_ctx self rid name ed body w)) = (files w2)(f := files w2 f @ ls
            @ [E]) \<and>
        field ''event_type'' S = Some (JStr ''start'') \<and>
        field ''duration_ms'' S = Some JNull \<and>
        field ''timestamp'' S = Some (JNum ts) \<and>
        (ls = [] \<or> (\<exists>R. ls = [R] \<and> field ''event_type'' R
            = Some (JStr ''error'') \<and>
                        field ''duration_ms'' R = Some JNull)) \<and>
        field ''event_type'' E = Some (JStr ''end'') \<and>
        field ''timestamp'' E = Some (JNum te) \<and>
        field ''duration_ms'' E = Some (JNum (py_round ((te - ts) * 1000) 3)))"
proof -
  let ?I = "JObj (event_record rid name ''instant'' (clock w (ticks w)) None (deref ed w) w)"
  let ?S = "JObj (event_record rid name ''start'' (clock w (ticks w)) None (deref ed w) w)"
  let ?t0 = "clock w (ticks w)"
  have instant: "files (mark self rid name ed w) = (files w)(f := files w f @ [?I])"
    using assms(1) by (simp add: mark_bound)
  have enter: "files (snd (range_enter self rid name ed w)) = (files w)(f := files w f @ [?S])"
    and start: "fst (range_enter self rid name ed w) = ?t0"
    using assms(1) by (simp_all add: range_enter_bound)
  have run: "snd (range_ctx self rid name ed body w) = range_exit self rid name ed ?t0 res w2"
    using assms(2) start by (simp add: range_ctx_unfold)
  obtain ls E te where exit:
    "files (range_exit self rid name ed ?t0 res w2) = (files w2)(f := files w2 f @ ls @ [E])"
    "ls = [] \<or> (\<exists>R. ls = [R] \<and> field ''event_type'' R
        = Some (JStr ''error'') \<and>
                     field ''duration_ms'' R = Some JNull)"
    "field ''event_type'' E = Some (JStr ''end'')"
    "field ''timestamp'' E = Some (JNum te)"
    "field ''duration_ms'' E = Some (JNum (py_round ((te - ?t0) * 1000) 3))"
    using range_exit_lines [OF assms(3), of rid name ed ?t0 res] by blast
  have first: "\<exists>I. files (mark self rid name ed w) = (files w)(f := files w f @ [I]) \<and>
          field ''event_type'' I = Some (JStr ''instant'') \<and>
          field ''duration_ms'' I = Some JNull"
    by (rule exI [of _ ?I]) (simp add: instant field_event_record)
  have second: "\<exists>S ls E ts te.
        files (snd (range_enter self rid name ed w)) = (files w)(f := files w f @ [S]) \<and>
        files (snd (range_ctx self rid name ed body w)) = (files w2)(f := files w2 f @ ls
            @ [E]) \<and>
        field ''event_type'' S = Some (JStr ''start'') \<and>
        field ''duration_ms'' S = Some JNull \<and>
        field ''timestamp'' S = Some (JNum ts) \<and>
        (ls = [] \<or> (\<exists>R. ls = [R] \<and> field ''event_type'' R
            = Some (JStr ''error'') \<and>
                        field ''duration_ms'' R = Some JNull)) \<and>
        field ''event_type'' E = Some (JStr ''end'') \<and>
        field ''timestamp'' E = Some (JNum te) \<and>
        field ''duration_ms'' E = Some (JNum (py_round ((te - ts) * 1000) 3))"
    apply (rule exI [of _ ?S], rule exI [of _ ls], rule exI [of _ E])
    apply (rule exI [of _ ?t0], rule exI [of _ te])
    apply (simp add: enter run exit field_event_record)
    done
  show ?thesis
    using first second by (rule conjI)
qed

theorem duration_ms_null_except_on_end_witness:
  "bound 0 ''t.log'' traced_process \<and>
   raise (ValueError ''boom'') (snd (range_enter 0 ''req-1'' ''load'' (Some 0) traced_process))
       = (Some (ValueError ''boom''), (snd (range_enter 0 ''req-1'' ''load'' (Some 0) traced_process))) \<and>
   bound 0 ''t.log'' (snd (range_enter 0 ''req-1'' ''load'' (Some 0) traced_process)) \<and>
   ((\<exists>I. files (mark 0 ''req-1'' ''load'' (Some 0) traced_process)
       = (files traced_process)(''t.log'' := files traced_process ''t.log'' @ [I]) \<and>
          field ''event_type'' I = Some (JStr ''instant'') \<and>
          field ''duration_ms'' I = Some JNull) \<and>
     (\<exists>S ls E ts te.
        files (snd (range_enter 0 ''req-1'' ''load'' (Some 0) traced_process))
            = (files traced_process)(''t.log'' := files traced_process ''t.log'' @ [S]) \<and>
        files (snd (range_ctx 0 ''req-1'' ''load'' (Some 0) (raise (ValueError ''boom'')) traced_process)) = (files (snd (range_enter 0 ''req-1'' ''load'' (Some 0) traced_process)))(''t.log'' := files (snd (range_enter 0 ''req-1'' ''load'' (Some 0) traced_process)) ''t.log'' @ ls @ [E]) \<and>
        field ''event_type'' S = Some (JStr ''start'') \<and>
        field ''duration_ms'' S = Some JNull \<and>
        field ''timestamp'' S = Some (JNum ts) \<and>
        (ls = [] \<or> (\<exists>R. ls = [R] \<and> field ''event_type'' R
            = Some (JStr ''error'') \<and>
                        field ''duration_ms'' R = Some JNull)) \<and>
        field ''event_type'' E = Some (JStr ''end'') \<and>
        field ''timestamp'' E = Some (JNum te) \<and>
        field ''duration_ms'' E = Some (JNum (py_round ((te - ts) * 1000) 3))))"
proof -
  have h1: "bound 0 ''t.log'' traced_process"
    by (rule traced_bound)
  have h2: "raise (ValueError ''boom'') (snd (range_enter 0 ''req-1'' ''load'' (Some 0) traced_process)) = (Some (ValueError ''boom''), (snd (range_enter 0 ''req-1'' ''load'' (Some 0) traced_process)))"
    by (simp add: raise_def)
  have h3: "bound 0 ''t.log'' (snd (range_enter 0 ''req-1'' ''load'' (Some 0) traced_process))"
    using h1 by (rule bound_after_enter)
  show ?thesis
    using h1 h2 h3
      duration_ms_null_except_on_end [of 0 "''t.log''" traced_process "raise (ValueError ''boom'')"
        "''req-1''" "''load''" "Some 0" "Some (ValueError ''boom'')" "snd (range_enter 0 ''req-1'' ''load'' (Some 0) traced_process)"]
    by blast
qed

text \<open>
  C5 as stated fails: it says that a record of type instant carries no \<open>duration_ms\<close>
  field. The record that \<open>mark\<close> writes has the key, with the value null (line 57).
\<close>

theorem instant_record_has_duration_ms_key:
  "field ''event_type'' (hd (files (mark 0 ''req-1'' ''tick'' None traced_process) ''t.log''))
     = Some (JStr ''instant'') \<and>
   has_field ''duration_ms'' (hd (files (mark 0 ''req-1'' ''tick'' None traced_process) ''t.log'')) \<and>
   field ''duration_ms'' (hd (files (mark 0 ''req-1'' ''tick'' None traced_process) ''t.log''))
     = Some JNull"
  by (simp add: mark_bound [where f = "''t.log''"] traced_bound traced_fields field_event_record
      has_field_duration_ms)

text \<open>
  C6. On a bound recorder, \<open>_log_event\<close> without a duration writes a record whose
  \<open>duration_ms\<close> is null, and \<open>_log_event\<close> without \<open>extra_data\<close> writes a record that has
  no key \<open>extra_data\<close> at all. Hence the same holds for \<open>mark\<close> and for both parts of
  \<open>range\<close> when they are called without \<open>extra_data\<close>.
\<close>

theorem absent_duration_null_absent_extra_data_omitted:
  assumes "bound self f w"
  shows
    "(\<exists>L. files (log_event self rid name ty ts None x w) = (files w)(f := files w f
        @ [L]) \<and>
          field ''duration_ms'' L = Some JNull) \<and>
     (\<exists>L. files (log_event self rid name ty ts d None w) = (files w)(f := files w f
         @ [L]) \<and>
          \<not> has_field ''extra_data'' L) \<and>
     (\<exists>L. files (mark self rid name None w) = (files w)(f := files w f @ [L]) \<and>
          field ''duration_ms'' L = Some JNull \<and> \<not> has_field ''extra_data'' L) \<and>
     (\<exists>L. files (snd (range_enter self rid name None w)) = (files w)(f := files w f
         @ [L]) \<and>
          field ''duration_ms'' L = Some JNull \<and> \<not> has_field ''extra_data'' L) \<and>
     (\<exists>L. files (range_exit self rid name None t0 None w) = (files w)(f := files w f
         @ [L]) \<and>
          \<not> has_field ''extra_data'' L)"
proof (intro conjI)
  let ?L = "\<lambda>ty ts d x. JObj (event_record rid name ty ts d x w)"
  show "\<exists>L. files (log_event self rid name ty ts None x w) = (files w)(f := files w f
      @ [L]) \<and>
          field ''duration_ms'' L = Some JNull"
    by (rule exI [of _ "?L ty ts None x"])
      (use assms in \<open>simp add: log_event_bound field_event_record\<close>)
  show "\<exists>L. files (log_event self rid name ty ts d None w) = (files w)(f := files w f
      @ [L]) \<and>
          \<not> has_field ''extra_data'' L"
    by (rule exI [of _ "?L ty ts d None"])
      (use assms in \<open>simp add: log_event_bound has_field_extra_data truthy_dict_def\<close>)
  show "\<exists>L. files (mark self rid name None w) = (files w)(f := files w f @ [L]) \<and>
          field ''duration_ms'' L = Some JNull \<and> \<not> has_field ''extra_data'' L"
    by (rule exI [of _ "?L ''instant'' (clock w (ticks w)) None None"])
      (use assms in \<open>simp add: mark_bound field_event_record has_field_extra_data
         truthy_dict_def deref_def\<close>)
  show "\<exists>L. files (snd (range_enter self rid name None w)) = (files w)(f := files w f
      @ [L]) \<and>
          field ''duration_ms'' L = Some JNull \<and> \<not> has_field ''extra_data'' L"
    by (rule exI [of _ "?L ''start'' (clock w (ticks w)) None None"])
      (use assms in \<open>simp add: range_enter_bound field_event_record has_field_extra_data
         truthy_dict_def deref_def\<close>)
  show "\<exists>L. files (range_exit self rid name None t0 None w) = (files w)(f := files w f
      @ [L]) \<and>
          \<not> has_field ''extra_data'' L"
    by (rule exI [of _ "?L ''end'' (clock w (ticks w)) (Some (clock w (ticks w) - t0)) None"])
      (use assms in \<open>simp add: range_exit_returned has_field_extra_data truthy_dict_def
         deref_def\<close>)
qed

theorem absent_duration_null_absent_extra_data_omitted_witness:
  "bound 0 ''t.log'' traced_process \<and>
   ((\<exists>L. files (log_event 0 ''req-1'' ''load'' ''instant'' 0 None (Some []) traced_process)
       = (files traced_process)(''t.log'' := files traced_process ''t.log'' @ [L]) \<and>
          field ''duration_ms'' L = Some JNull) \<and>
     (\<exists>L. files (log_event 0 ''req-1'' ''load'' ''instant'' 0 (Some 1) None traced_process)
         = (files traced_process)(''t.log'' := files traced_process ''t.log'' @ [L]) \<and>
          \<not> has_field ''extra_data'' L) \<and>
     (\<exists>L. files (mark 0 ''req-1'' ''load'' None traced_process)
         = (files traced_process)(''t.log'' := files traced_process ''t.log'' @ [L]) \<and>
          field ''duration_ms'' L = Some JNull \<and> \<not> has_field ''extra_data'' L) \<and>
     (\<exists>L. files (snd (range_enter 0 ''req-1'' ''load'' None traced_process))
         = (files traced_process)(''t.log'' := files traced_process ''t.log'' @ [L]) \<and>
          field ''duration_ms'' L = Some JNull \<and> \<not> has_field ''extra_data'' L) \<and>
     (\<exists>L. files (range_exit 0 ''req-1'' ''load'' None 0 None traced_process)
         = (files traced_process)(''t.log'' := files traced_process ''t.log'' @ [L]) \<and>
          \<not> has_field ''extra_data'' L))"
  using traced_bound
    absent_duration_null_absent_extra_data_omitted [of 0 "''t.log''" traced_process
      "''req-1''" "''load''" "''instant''" 0 "Some []" "Some 1" 0]
  by blast

text \<open>
  C7. \<open>reconfigure\<close> is \<open>_setup_logger\<close> run on the state in which the logger of the
  recorder has lost all its handlers and the attributes given (and true) have replaced
  the old ones, the others staying; it writes to no file. For a recorder whose logger is
  the one of its channel, as after construction, \<open>reconfigure(new_sink)\<close> with a path that is
  not empty leaves the recorder bound to \<open>new_sink\<close>: the next \<open>mark\<close>, and both parts of
  the next \<open>range\<close>, append their lines to \<open>new_sink\<close> and leave every other file, the old
  sink among them, as it was. A further \<open>reconfigure\<close> on the same channel leaves one
  handler again, and no sequence of \<open>reconfigure\<close> calls, whatever their arguments, leaves
  any logger with more handlers than it had before, or than one.
\<close>

theorem reconfigure_replaces_sink:
  assumes "logger (objects w self) = logger_name (objects w self)"
    and "new_sink \<noteq> []"
  shows
    "reconfigure self lfile lname w =
       setup_logger self
         (w\<lparr>loggers := (loggers w)(logger (objects w self) :=
              (loggers w (logger (objects w self)))\<lparr>handlers := []\<rparr>),
            objects := (objects w)(self := (objects w self)
              \<lparr>log_file := (if truthy_str lfile then the lfile else log_file (objects w self)),
               logger_name := (if truthy_str lname then the lname else logger_name (objects w self)),
               initialized := False\<rparr>)\<rparr>) \<and>
     files (reconfigure self lfile lname w) = files w \<and>
     bound self new_sink (reconfigure self (Some new_sink) None w) \<and>
     log_file (objects (reconfigure self (Some new_sink) None w) self) = new_sink \<and>
     (\<exists>I. files (mark self rid name ed (reconfigure self (Some new_sink) None w))
             = (files w)(new_sink := files w new_sink @ [I]) \<and>
          field ''event_type'' I = Some (JStr ''instant'')) \<and>
     (log_file (objects w self) \<noteq> new_sink \<longrightarrow>
        files (mark self rid name ed (reconfigure self (Some new_sink) None w)) (log_file (objects w self))
          = files w (log_file (objects w self))) \<and>
     (\<exists>S. files (snd (range_enter self rid name ed (reconfigure self (Some new_sink) None w)))
             = (files w)(new_sink := files w new_sink @ [S]) \<and>
          field ''event_type'' S = Some (JStr ''start'')) \<and>
     (\<exists>ls E. files (range_exit self rid name ed t0 res (reconfigure self (Some new_sink) None w))
             = (files w)(new_sink := files w new_sink @ ls @ [E]) \<and>
          field ''event_type'' E = Some (JStr ''end'')) \<and>
     handlers (loggers (reconfigure self lfile2 None (reconfigure self (Some new_sink) None w))
                (logger_name (objects w self)))
       = [FileHandler (if truthy_str lfile2 then the lfile2 else new_sink)] \<and>
     length (handlers (loggers
         (foldl (\<lambda>v (sink, channel). reconfigure self sink channel v) w calls) lg))
       \<le> max 1 (length (handlers (loggers w lg)))"
proof -
  let ?w = "reconfigure self (Some new_sink) None w"
  have b: "bound self new_sink ?w"
    using bound_reconfigure [OF assms(1), of "Some new_sink"] assms(2) by simp
  have obj: "objects ?w self = (objects w self)
      \<lparr>log_file := new_sink, logger := logger_name (objects w self), initialized := True\<rparr>"
    using reconfigure_same_channel(2) [OF assms(1), of "Some new_sink"] assms(2) by simp
  have inv: "logger (objects ?w self) = logger_name (objects ?w self)"
    by (simp add: obj)
  have instant: "\<exists>I. files (mark self rid name ed ?w)
      = (files w)(new_sink := files w new_sink @ [I]) \<and>
          field ''event_type'' I = Some (JStr ''instant'')"
    by (rule exI [of _ "JObj (event_record rid name ''instant'' (clock ?w (ticks ?w)) None
                               (deref ed ?w) ?w)"])
      (simp add: mark_bound [OF b] field_event_record)
  then have old: "log_file (objects w self) \<noteq> new_sink \<longrightarrow>
        files (mark self rid name ed ?w) (log_file (objects w self))
          = files w (log_file (objects w self))"
    by auto
  have start: "\<exists>S. files (snd (range_enter self rid name ed ?w))
             = (files w)(new_sink := files w new_sink @ [S]) \<and>
          field ''event_type'' S = Some (JStr ''start'')"
    by (rule exI [of _ "JObj (event_record rid name ''start'' (clock ?w (ticks ?w)) None
                               (deref ed ?w) ?w)"])
      (simp add: range_enter_bound [OF b] field_event_record)
  have "end": "\<exists>ls E. files (range_exit self rid name ed t0 res ?w)
             = (files w)(new_sink := files w new_sink @ ls @ [E]) \<and>
          field ''event_type'' E = Some (JStr ''end'')"
    using range_exit_lines [OF b, of rid name ed t0 res] by auto
  have again: "handlers (loggers (reconfigure self lfile2 None ?w) (logger_name (objects w self)))
       = [FileHandler (if truthy_str lfile2 then the lfile2 else new_sink)]"
    using reconfigure_same_channel(1) [OF inv, of lfile2] by (simp add: obj)
  have rebuild: "reconfigure self lfile lname w =
       setup_logger self
         (w\<lparr>loggers := (loggers w)(logger (objects w self) :=
              (loggers w (logger (objects w self)))\<lparr>handlers := []\<rparr>),
            objects := (objects w)(self := (objects w self)
              \<lparr>log_file := (if truthy_str lfile then the lfile else log_file (objects w self)),
               logger_name := (if truthy_str lname then the lname else logger_name (objects w self)),
               initialized := False\<rparr>)\<rparr>)"
    by (rule reconfigure_unfold)
  have quiet: "files (reconfigure self lfile lname w) = files w"
    by simp
  have sink: "log_file (objects ?w self) = new_sink"
    by (simp add: obj)
  have few: "length (handlers (loggers
         (foldl (\<lambda>v (sink, channel). reconfigure self sink channel v) w calls) lg))
       \<le> max 1 (length (handlers (loggers w lg)))"
    by (rule reconfigure_repeated_le)
  from rebuild quiet b sink instant old start "end" again few show ?thesis
    by blast
qed

theorem reconfigure_replaces_sink_witness:
  "logger (objects traced_process 0) = logger_name (objects traced_process 0) \<and>
   ''u.log'' \<noteq> [] \<and>
   log_file (objects traced_process 0) \<noteq> ''u.log'' \<and>
   (reconfigure 0 (Some ''u.log'') None traced_process =
       setup_logger 0
         (traced_process\<lparr>loggers := (loggers traced_process)(logger (objects traced_process 0) :=
              (loggers traced_process (logger (objects traced_process 0)))\<lparr>handlers := []\<rparr>),
            objects := (objects traced_process)(0 := (objects traced_process 0)
              \<lparr>log_file := (if truthy_str (Some ''u.log'') then the (Some ''u.log'') else log_file (objects traced_process 0)),
               logger_name := (if truthy_str None then the None else logger_name (objects traced_process 0)),
               initialized := False\<rparr>)\<rparr>) \<and>
     files (reconfigure 0 (Some ''u.log'') None traced_process) = files traced_process \<and>
     bound 0 ''u.log'' (reconfigure 0 (Some ''u.log'') None traced_process) \<and>
     log_file (objects (reconfigure 0 (Some ''u.log'') None traced_process) 0) = ''u.log'' \<and>
     (\<exists>I. files (mark 0 ''req-1'' ''load'' None (reconfigure 0 (Some ''u.log'') None traced_process))
             = (files traced_process)(''u.log'' := files traced_process ''u.log'' @ [I]) \<and>
          field ''event_type'' I = Some (JStr ''instant'')) \<and>
     (        files (mark 0 ''req-1'' ''load'' None (reconfigure 0 (Some ''u.log'') None traced_process)) (log_file (objects traced_process 0))
          = files traced_process (log_file (objects traced_process 0))) \<and>
     (\<exists>S. files (snd (range_enter 0 ''req-1'' ''load'' None (reconfigure 0 (Some ''u.log'') None traced_process)))
             = (files traced_process)(''u.log'' := files traced_process ''u.log'' @ [S]) \<and>
          field ''event_type'' S = Some (JStr ''start'')) \<and>
     (\<exists>ls E. files (range_exit 0 ''req-1'' ''load'' None 0 None (reconfigure 0 (Some ''u.log'') None traced_process))
             = (files traced_process)(''u.log'' := files traced_process ''u.log'' @ ls @ [E]) \<and>
          field ''event_type'' E = Some (JStr ''end'')) \<and>
     handlers (loggers (reconfigure 0 (Some ''v.log'') None (reconfigure 0 (Some ''u.log'') None traced_process))
                (logger_name (objects traced_process 0)))
       = [FileHandler (if truthy_str (Some ''v.log'') then the (Some ''v.log'') else ''u.log'')] \<and>
     length (handlers (loggers
         (foldl (\<lambda>v (sink, channel). reconfigure 0 sink channel v) traced_process [(Some ''a.log'', None), (None, Some ''other''), (Some ''b.log'', Some ''ch'')]) ''ch''))
       \<le> max 1 (length (handlers (loggers traced_process ''ch''))))"
proof -
  have h1: "logger (objects traced_process 0) = logger_name (objects traced_process 0)"
    by (simp add: traced_fields_more)
  have h2: "''u.log'' \<noteq> []"
    by simp
  have h3: "log_file (objects traced_process 0) \<noteq> ''u.log''"
    by (simp add: traced_fields_more)
  show ?thesis
    using h1 h2 h3
      reconfigure_replaces_sink [of traced_process 0 "''u.log''" "Some ''u.log''" None
        "''req-1''" "''load''" None 0 None "Some ''v.log''"
        "[(Some ''a.log'', None), (None, Some ''other''), (Some ''b.log'', Some ''ch'')]" "''ch''"]
    by blast
qed

text \<open>
  C8. While the global slot is empty, \<open>get_event_logger\<close> constructs a recorder from its
  arguments, or from \<open>"events.log"\<close> and \<open>"event_logger"\<close> where they are left out, stores
  it in the slot and returns it; the recorder is a new object. Any call after that, with
  whatever arguments, returns the same object and leaves the whole state as it is. In
  general, when the slot holds a recorder, the call returns it and changes nothing.
\<close>

theorem get_event_logger_singleton:
  "(event_context w = None \<longrightarrow>
      get_event_logger lfile lname w
        = (next_obj w, (snd (EventContext lfile lname w))\<lparr>event_context := Some (next_obj w)\<rparr>) \<and>
      log_file (objects (snd (get_event_logger lfile lname w)) (next_obj w))
        = or_default lfile ''events.log'' \<and>
      logger_name (objects (snd (get_event_logger lfile lname w)) (next_obj w))
        = or_default lname ''event_logger'' \<and>
      get_event_logger lfile' lname' (snd (get_event_logger lfile lname w))
        = get_event_logger lfile lname w) \<and>
   (event_context w = Some a \<longrightarrow> get_event_logger lfile lname w = (a, w))"
  by (simp add: get_event_logger_def EventContext_unfold init_unfold default_log_file_def
      default_logger_name_def)

theorem get_event_logger_singleton_witness:
  "event_context fresh_process = None \<and>
   get_event_logger (Some ''t.log'') None fresh_process
     = (next_obj fresh_process,
        (snd (EventContext (Some ''t.log'') None fresh_process))
          \<lparr>event_context := Some (next_obj fresh_process)\<rparr>) \<and>
   log_file (objects (snd (get_event_logger (Some ''t.log'') None fresh_process)) (next_obj fresh_process))
     = or_default (Some ''t.log'') ''events.log'' \<and>
   logger_name (objects (snd (get_event_logger (Some ''t.log'') None fresh_process)) (next_obj fresh_process))
     = or_default None ''event_logger'' \<and>
   get_event_logger (Some ''u.log'') (Some ''ch'') (snd (get_event_logger (Some ''t.log'') None fresh_process))
     = get_event_logger (Some ''t.log'') None fresh_process \<and>
   event_context traced_process = Some 0 \<and>
   get_event_logger (Some ''u.log'') (Some ''other'') traced_process = (0, traced_process)"
proof -
  have h1: "event_context fresh_process = None"
    by (simp add: fresh_process_def)
  have h2: "event_context traced_process = Some 0"
    by (simp add: traced_process_def init_event_logger_def EventContext_unfold fresh_process_def)
  show ?thesis
    using h1 h2
      get_event_logger_singleton [of fresh_process "Some ''t.log''" None "Some ''u.log''" "Some ''ch''" 0]
      get_event_logger_singleton [of traced_process "Some ''u.log''" "Some ''other''" None None 0]
    by blast
qed

text \<open>
  C9, as amended. Let a dict be passed as \<open>extra_data\<close> and let the block raise a fault
  \<open>e\<close> that derives from \<open>Exception\<close>. If the dict is not empty at the moment the fault
  leaves the block (\<open>w2\<close> is the state the block ends in; what the dict held when \<open>range\<close>
  was called does not matter, since line 80 tests it after the block), then after \<open>range\<close>
  the caller's dict is the dict of that moment with the key \<open>error\<close> set to \<open>str(e)\<close>.
  No hypothesis on the logger is needed.
\<close>

theorem range_mutates_nonempty_extra_data:
  assumes "body (snd (range_enter self rid name (Some a) w)) = (Some e, w2)"
    and "is_Exception e"
    and "dicts w2 a \<noteq> []"
  shows "dicts (snd (range_ctx self rid name (Some a) body w)) a
           = AList.update ''error'' (JStr (str_of e)) (dicts w2 a) \<and>
         getitem (dicts (snd (range_ctx self rid name (Some a) body w)) a) ''error''
           = Some (JStr (str_of e))"
  using assms
  by (simp add: range_ctx_unfold range_exit_def dicts_range_except dicts_error_extra_of
      getitem_def update_conv')

theorem range_mutates_nonempty_extra_data_witness:
  "raise (ValueError ''boom'') (snd (range_enter 0 ''req-1'' ''load'' (Some 0) traced_process))
     = (Some (ValueError ''boom''), snd (range_enter 0 ''req-1'' ''load'' (Some 0) traced_process)) \<and>
   is_Exception (ValueError ''boom'') \<and>
   dicts (snd (range_enter 0 ''req-1'' ''load'' (Some 0) traced_process)) 0 \<noteq> [] \<and>
   dicts (snd (range_ctx 0 ''req-1'' ''load'' (Some 0) (raise (ValueError ''boom'')) traced_process)) 0
     = [(''k'', JStr ''v''), (''error'', JStr ''boom'')] \<and>
   getitem (dicts (snd (range_ctx 0 ''req-1'' ''load'' (Some 0) (raise (ValueError ''boom''))
                          traced_process)) 0) ''error''
     = Some (JStr ''boom'')"
proof -
  let ?w2 = "snd (range_enter 0 ''req-1'' ''load'' (Some 0) traced_process)"
  have h1: "raise (ValueError ''boom'') ?w2 = (Some (ValueError ''boom''), ?w2)"
    by (simp add: raise_def)
  have h2: "is_Exception (ValueError ''boom'')"
    by (simp add: ValueError_def)
  have h3: "dicts ?w2 0 \<noteq> []"
    by (simp add: traced_fields)
  have d: "AList.update ''error'' (JStr (str_of (ValueError ''boom''))) (dicts ?w2 0)
           = [(''k'', JStr ''v''), (''error'', JStr ''boom'')]"
    and s: "str_of (ValueError ''boom'') = ''boom''"
    by (simp_all add: traced_fields ValueError_def)
  show ?thesis
    using h1 h2 h3 d s
      range_mutates_nonempty_extra_data [of "raise (ValueError ''boom'')" 0 "''req-1''" "''load''" 0
        traced_process "ValueError ''boom''" ?w2]
    by (simp add: getitem_def)
qed

text \<open>
  C9 as stated fails in three ways. An empty dict is false, so line 80 makes a new dict
  and the caller's stays empty. A fault that does not derive from \<open>Exception\<close> never
  reaches line 80. And a dict that held an entry when it was passed, but that the block
  has emptied before raising, is empty when line 80 tests it: it stays empty.
\<close>

theorem range_empty_extra_data_not_mutated:
  "dicts (snd (range_ctx 0 ''req-1'' ''load'' (Some 1) (raise (ValueError ''boom''))
                 traced_process)) 1 = [] \<and>
   dicts (snd (range_ctx 0 ''req-1'' ''load'' (Some 0) (raise KeyboardInterrupt)
                 traced_process)) 0 = [(''k'', JStr ''v'')] \<and>
   dicts traced_process 0 = [(''k'', JStr ''v'')] \<and>
   dicts (snd (range_ctx 0 ''req-1'' ''load'' (Some 0) (clear_then_raise 0 (ValueError ''boom''))
                 traced_process)) 0 = []"
  by (simp add: range_ctx_raise range_ctx_clear_then_raise range_exit_def dicts_range_except
      dicts_error_extra_of ValueError_def KeyboardInterrupt_def traced_fields)

text \<open>
  C10. When the logger of the channel already has a handler, construction changes
  nothing of it but its level, which becomes \<open>INFO\<close>: the handlers and the propagation flag
  stay, and no file is touched. This is so for \<open>_setup_logger\<close> on a recorder not yet
  initialised, for \<open>init_event_logger\<close>, for \<open>get_event_logger\<close> with an empty slot, and for
  \<open>reconfigure\<close> to another channel. A \<open>mark\<close> on the recorder just constructed then goes
  to the files of the handlers that were there (and of the root logger, if the channel
  propagated), not to the path given to the constructor.
\<close>

theorem construction_keeps_existing_handlers:
  "(\<not> initialized (objects w self) \<and>
      handlers (loggers w (logger_name (objects w self))) \<noteq> [] \<longrightarrow>
      loggers (setup_logger self w)
        = (loggers w)(logger_name (objects w self) :=
            (loggers w (logger_name (objects w self)))\<lparr>level := INFO\<rparr>) \<and>
      files (setup_logger self w) = files w) \<and>
   (handlers (loggers w (or_default lname default_logger_name)) \<noteq> [] \<longrightarrow>
      loggers (snd (init_event_logger lfile lname w))
        = (loggers w)(or_default lname default_logger_name :=
            (loggers w (or_default lname default_logger_name))\<lparr>level := INFO\<rparr>) \<and>
      handlers (loggers (snd (init_event_logger lfile lname w)) (or_default lname default_logger_name))
        = handlers (loggers w (or_default lname default_logger_name)) \<and>
      propagate (loggers (snd (init_event_logger lfile lname w)) (or_default lname default_logger_name))
        = propagate (loggers w (or_default lname default_logger_name)) \<and>
      files (snd (init_event_logger lfile lname w)) = files w \<and>
      (event_context w = None \<longrightarrow>
         loggers (snd (get_event_logger lfile lname w))
             = loggers (snd (init_event_logger lfile lname w))) \<and>
      (\<exists>I. field ''event_type'' I = Some (JStr ''instant'') \<and>
         files (mark (fst (init_event_logger lfile lname w)) rid name ed
                  (snd (init_event_logger lfile lname w)))
           = foldl (emit I) (files w)
               (handlers (loggers w (or_default lname default_logger_name)) @
                (if propagate (loggers w (or_default lname default_logger_name))
                 then root_handlers w else [])))) \<and>
   (truthy_str lname \<and> the lname \<noteq> logger (objects w self) \<and>
    handlers (loggers w (the lname)) \<noteq> [] \<longrightarrow>
      loggers (reconfigure self lfile lname w) (the lname)
          = (loggers w (the lname))\<lparr>level := INFO\<rparr>)"
proof (intro conjI impI)
  assume "\<not> initialized (objects w self) \<and>
      handlers (loggers w (logger_name (objects w self))) \<noteq> []"
  then show "loggers (setup_logger self w)
        = (loggers w)(logger_name (objects w self) :=
            (loggers w (logger_name (objects w self)))\<lparr>level := INFO\<rparr>)"
    by (simp add: setup_logger_uninitialized)
next
  show "files (setup_logger self w) = files w"
    by simp
next
  let ?ch = "or_default lname default_logger_name"
  let ?w = "snd (init_event_logger lfile lname w)"
  assume h: "handlers (loggers w ?ch) \<noteq> []"
  show regs: "loggers ?w = (loggers w)(?ch := (loggers w ?ch)\<lparr>level := INFO\<rparr>)"
    using h by (simp add: init_event_logger_unfold init_unfold)
  show "handlers (loggers ?w ?ch) = handlers (loggers w ?ch)"
    and "propagate (loggers ?w ?ch) = propagate (loggers w ?ch)"
    by (simp_all add: regs)
  show "files ?w = files w"
    by (simp add: init_event_logger_unfold init_unfold)
  show "loggers (snd (get_event_logger lfile lname w)) = loggers ?w" if "event_context w = None"
    using that by (simp add: get_event_logger_def init_event_logger_def split_beta)
  let ?self = "fst (init_event_logger lfile lname w)"
  let ?I = "JObj (event_record rid name ''instant'' (clock w (ticks w)) None (deref ed w) w)"
  have lg: "logger (objects ?w ?self) = ?ch"
    by (simp add: init_event_logger_unfold init_unfold)
  have same: "clock ?w = clock w" "ticks ?w = ticks w" "dicts ?w = dicts w"
    "isoformat ?w = isoformat w" "root_handlers ?w = root_handlers w" "files ?w = files w"
    by (simp_all add: init_event_logger_unfold init_unfold)
  have "files (mark ?self rid name ed ?w)
      = foldl (emit ?I) (files w)
          (handlers (loggers w ?ch) @ (if propagate (loggers w ?ch) then root_handlers w else []))"
    by (simp add: mark_def time_time_def log_event_def lg logger_info_at_INFO regs same deref_def
        event_record_def)
  then show "\<exists>I. field ''event_type'' I = Some (JStr ''instant'') \<and>
         files (mark ?self rid name ed ?w)
           = foldl (emit I) (files w)
               (handlers (loggers w ?ch)
                   @ (if propagate (loggers w ?ch) then root_handlers w else []))"
    by (intro exI [of _ ?I]) (simp add: field_event_record)
next
  assume "truthy_str lname \<and> the lname \<noteq> logger (objects w self) \<and>
    handlers (loggers w (the lname)) \<noteq> []"
  then show "loggers (reconfigure self lfile lname w) (the lname)
      = (loggers w (the lname))\<lparr>level := INFO\<rparr>"
    by (simp add: reconfigure_unfold setup_logger_uninitialized)
qed

theorem construction_keeps_existing_handlers_witness:
  "(\<not> initialized (objects (set_obj 1 (\<lambda>r. r\<lparr>log_file := ''u.log'', logger_name := ''ch'', initialized := False\<rparr>) traced_process) 1) \<and> handlers (loggers (set_obj 1 (\<lambda>r. r\<lparr>log_file := ''u.log'', logger_name := ''ch'', initialized := False\<rparr>) traced_process) (logger_name (objects (set_obj 1 (\<lambda>r. r\<lparr>log_file := ''u.log'', logger_name := ''ch'', initialized := False\<rparr>) traced_process) 1))) \<noteq> []) \<and>
   (loggers (setup_logger 1 (set_obj 1 (\<lambda>r. r\<lparr>log_file := ''u.log'', logger_name := ''ch'', initialized := False\<rparr>) traced_process))
        = (loggers (set_obj 1 (\<lambda>r. r\<lparr>log_file := ''u.log'', logger_name := ''ch'', initialized := False\<rparr>) traced_process))(logger_name (objects (set_obj 1 (\<lambda>r. r\<lparr>log_file := ''u.log'', logger_name := ''ch'', initialized := False\<rparr>) traced_process) 1) :=
            (loggers (set_obj 1 (\<lambda>r. r\<lparr>log_file := ''u.log'', logger_name := ''ch'', initialized := False\<rparr>) traced_process) (logger_name (objects (set_obj 1 (\<lambda>r. r\<lparr>log_file := ''u.log'', logger_name := ''ch'', initialized := False\<rparr>) traced_process) 1)))\<lparr>level := INFO\<rparr>) \<and>
      files (setup_logger 1 (set_obj 1 (\<lambda>r. r\<lparr>log_file := ''u.log'', logger_name := ''ch'', initialized := False\<rparr>) traced_process)) = files (set_obj 1 (\<lambda>r. r\<lparr>log_file := ''u.log'', logger_name := ''ch'', initialized := False\<rparr>) traced_process)) \<and>
   (handlers (loggers direct_process (or_default (Some ''ch'') default_logger_name)) \<noteq> []) \<and>
   event_context direct_process = None \<and>
   (loggers (snd (init_event_logger (Some ''u.log'') (Some ''ch'') direct_process))
        = (loggers direct_process)(or_default (Some ''ch'') default_logger_name :=
            (loggers direct_process (or_default (Some ''ch'') default_logger_name))\<lparr>level := INFO\<rparr>) \<and>
      handlers (loggers (snd (init_event_logger (Some ''u.log'') (Some ''ch'') direct_process)) (or_default (Some ''ch'') default_logger_name))
        = handlers (loggers direct_process (or_default (Some ''ch'') default_logger_name)) \<and>
      propagate (loggers (snd (init_event_logger (Some ''u.log'') (Some ''ch'') direct_process)) (or_default (Some ''ch'') default_logger_name))
        = propagate (loggers direct_process (or_default (Some ''ch'') default_logger_name)) \<and>
      files (snd (init_event_logger (Some ''u.log'') (Some ''ch'') direct_process))
          = files direct_process \<and>
      (         loggers (snd (get_event_logger (Some ''u.log'') (Some ''ch'') direct_process))
          = loggers (snd (init_event_logger (Some ''u.log'') (Some ''ch'') direct_process))) \<and>
      (\<exists>I. field ''event_type'' I = Some (JStr ''instant'') \<and>
         files (mark (fst (init_event_logger (Some ''u.log'') (Some ''ch'') direct_process)) ''req-1'' ''tick'' None
                  (snd (init_event_logger (Some ''u.log'') (Some ''ch'') direct_process)))
           = foldl (emit I) (files direct_process)
               (handlers (loggers direct_process (or_default (Some ''ch'') default_logger_name)) @
                (if propagate (loggers direct_process (or_default (Some ''ch'') default_logger_name))
                 then root_handlers direct_process else [])))) \<and>
   (truthy_str (Some ''ch'') \<and>
       the (Some ''ch'') \<noteq> logger (objects (snd (init_event_logger (Some ''u.log'') (Some ''other'') traced_process)) 1) \<and>
    handlers (loggers (snd (init_event_logger (Some ''u.log'') (Some ''other'') traced_process)) (the (Some ''ch''))) \<noteq> []) \<and>
   (loggers (reconfigure 1 None (Some ''ch'') (snd (init_event_logger (Some ''u.log'') (Some ''other'') traced_process))) (the (Some ''ch'')) = (loggers (snd (init_event_logger (Some ''u.log'') (Some ''other'') traced_process)) (the (Some ''ch'')))\<lparr>level := INFO\<rparr>)"
proof -
  have h1: "\<not> initialized (objects (set_obj 1 (\<lambda>r. r\<lparr>log_file := ''u.log'', logger_name := ''ch'', initialized := False\<rparr>) traced_process) 1) \<and> handlers (loggers (set_obj 1 (\<lambda>r. r\<lparr>log_file := ''u.log'', logger_name := ''ch'', initialized := False\<rparr>) traced_process) (logger_name (objects (set_obj 1 (\<lambda>r. r\<lparr>log_file := ''u.log'', logger_name := ''ch'', initialized := False\<rparr>) traced_process) 1))) \<noteq> []"
    by (simp add: set_obj_def traced_fields_more)
  have h2: "handlers (loggers direct_process (or_default (Some ''ch'') default_logger_name)) \<noteq> []"
    and h2': "event_context direct_process = None"
    by (simp_all add: direct_process_def EventContext_unfold init_unfold fresh_process_def
        new_logger_def or_default_def)
  have h3: "truthy_str (Some ''ch'') \<and>
      the (Some ''ch'') \<noteq> logger (objects (snd (init_event_logger (Some ''u.log'') (Some ''other'') traced_process)) 1) \<and>
    handlers (loggers (snd (init_event_logger (Some ''u.log'') (Some ''other'') traced_process)) (the (Some ''ch''))) \<noteq> []"
    by (simp add: init_event_logger_unfold init_unfold traced_fields_more or_default_def)
  show ?thesis
    using h1 h2 h2' h3
      construction_keeps_existing_handlers [of "set_obj 1 (\<lambda>r. r\<lparr>log_file := ''u.log'', logger_name := ''ch'', initialized := False\<rparr>) traced_process" 1 "Some ''ch''" "Some ''u.log''" "''req-1''" "''tick''" None]
      construction_keeps_existing_handlers [of direct_process 0 "Some ''ch''" "Some ''u.log''" "''req-1''" "''tick''" None]
      construction_keeps_existing_handlers [of "snd (init_event_logger (Some ''u.log'') (Some ''other'') traced_process)" 1 "Some ''ch''" None "''req-1''" "''tick''" None]
    by blast
qed

end
